theory Spec2Isabelle
  imports Main "HOL-Library.Word" "HOL-Library.Sublist" "HOL-Library.AList"
begin

unbundle bit_operations_syntax

section \<open>Bytes, big-endian integers and hexadecimal strings\<close>

text \<open>
  Go's \<^verbatim>\<open>byte\<close> is an 8-bit word, a \<^verbatim>\<open>[]byte\<close> a list of them and a
  \<^verbatim>\<open>string\<close> a list of 8-bit characters.
\<close>

type_synonym byte = "8 word"

text \<open>
  \<^verbatim>\<open>binary.Write(buf, binary.BigEndian, v)\<close> for a fixed-size unsigned or signed
  integer \<^verbatim>\<open>v\<close> appends its bytes, most significant first: one byte for
  \<^verbatim>\<open>uint8\<close>, two for \<^verbatim>\<open>uint16\<close>, four for \<^verbatim>\<open>uint32\<close> and eight for
  \<^verbatim>\<open>int64\<close>.
\<close>

definition BigEndian_uint16 :: "16 word \<Rightarrow> byte list" where
  "BigEndian_uint16 v = [ucast (drop_bit 8 v), ucast v]"

definition BigEndian_uint32 :: "32 word \<Rightarrow> byte list" where
  "BigEndian_uint32 v =
     [ucast (drop_bit 24 v), ucast (drop_bit 16 v), ucast (drop_bit 8 v), ucast v]"

definition BigEndian_int64 :: "64 word \<Rightarrow> byte list" where
  "BigEndian_int64 v =
     [ucast (drop_bit 56 v), ucast (drop_bit 48 v), ucast (drop_bit 40 v),
      ucast (drop_bit 32 v), ucast (drop_bit 24 v), ucast (drop_bit 16 v),
      ucast (drop_bit 8 v), ucast v]"

text \<open>
  The errors of the program: those it makes itself with \<^verbatim>\<open>errors.New\<close> and
  those of the libraries it calls.
\<close>

datatype error =
    ErrorNew string          \<comment> \<open>\<^verbatim>\<open>errors.New(msg)\<close>\<close>
  | ErrLength                \<comment> \<open>\<^verbatim>\<open>hex.ErrLength\<close>\<close>
  | InvalidByteError char    \<comment> \<open>\<^verbatim>\<open>hex.InvalidByteError(c)\<close>\<close>
  | MarshalerError error     \<comment> \<open>\<^verbatim>\<open>*json.MarshalerError\<close> wrapping the error of \<^verbatim>\<open>MarshalJSON\<close>\<close>
  | JSONError string         \<comment> \<open>any other error of \<^verbatim>\<open>json.Marshal\<close>\<close>
  | EOF                      \<comment> \<open>\<^verbatim>\<open>io.EOF\<close>\<close>
  | ErrUnexpectedEOF         \<comment> \<open>\<^verbatim>\<open>io.ErrUnexpectedEOF\<close>\<close>
  | Timeout                  \<comment> \<open>a \<^verbatim>\<open>net.Error\<close> whose \<^verbatim>\<open>Timeout()\<close> is true\<close>
  | NetError string          \<comment> \<open>any other error of the connection\<close>

text \<open>
  \<^verbatim>\<open>binary.Read(buf, binary.BigEndian, &timestamp)\<close> for a \<^verbatim>\<open>uint32\<close> consumes
  four bytes; with fewer bytes in the buffer it fails (\<^verbatim>\<open>io.EOF\<close> on an empty
  buffer, \<^verbatim>\<open>io.ErrUnexpectedEOF\<close> otherwise).
\<close>

fun BigEndian_read_uint32 :: "byte list \<Rightarrow> error + 32 word" where
  "BigEndian_read_uint32 (b0 # b1 # b2 # b3 # rest) =
     Inr (push_bit 24 (ucast b0) OR push_bit 16 (ucast b1) OR push_bit 8 (ucast b2) OR ucast b3)"
| "BigEndian_read_uint32 [] = Inl EOF"
| "BigEndian_read_uint32 bs = Inl ErrUnexpectedEOF"

text \<open>\<^verbatim>\<open>hex.EncodeToString\<close>: two lower-case digits for each byte.\<close>

definition hextable :: string where
  "hextable = ''0123456789abcdef''"

definition EncodeToString :: "byte list \<Rightarrow> string" where
  "EncodeToString src =
     concat (map (\<lambda>v. [hextable ! unat (drop_bit 4 v), hextable ! unat (v AND 0x0f)]) src)"

text \<open>
  \<^verbatim>\<open>hex.DecodeString\<close>: the digits are taken in pairs, an invalid character is
  reported where it is met, and a string of odd length is an error once its
  pairs have been read. The source discards the bytes decoded before an error.
\<close>

definition fromHexChar :: "char \<Rightarrow> byte option" where
  "fromHexChar c =
     (let n = (of_char c :: nat) in
      if 48 \<le> n \<and> n \<le> 57 then Some (of_nat (n - 48))
      else if 97 \<le> n \<and> n \<le> 102 then Some (of_nat (n - 97 + 10))
      else if 65 \<le> n \<and> n \<le> 70 then Some (of_nat (n - 65 + 10))
      else None)"

fun DecodeString :: "string \<Rightarrow> error + byte list" where
  "DecodeString (p # q # s) =
     (case fromHexChar p of
        None \<Rightarrow> Inl (InvalidByteError p)
      | Some a \<Rightarrow>
          (case fromHexChar q of
             None \<Rightarrow> Inl (InvalidByteError q)
           | Some b \<Rightarrow>
               (case DecodeString s of
                  Inl e \<Rightarrow> Inl e
                | Inr bs \<Rightarrow> Inr ((push_bit 4 a OR b) # bs))))"
| "DecodeString [p] =
     (case fromHexChar p of None \<Rightarrow> Inl (InvalidByteError p) | Some a \<Rightarrow> Inl ErrLength)"
| "DecodeString [] = Inr []"

section \<open>The error response decoder\<close>

text \<open>
  \<^verbatim>\<open>PushNotificationErrorStatuses\<close> is a Go map from status code to description;
  looking up a missing key gives the empty string.
\<close>

definition PushNotificationErrorStatuses :: "(byte \<times> string) list" where
  "PushNotificationErrorStatuses =
     [(0, ''No errors encountered''),
      (1, ''Processing error''),
      (2, ''Missing device token''),
      (3, ''Missing topic''),
      (4, ''Missing payload''),
      (5, ''Invalid token size''),
      (6, ''Invalid topic size''),
      (7, ''Invalid payload size''),
      (8, ''Invalid token''),
      (10, ''Shutdown''),
      (255, ''Unknown'')]"

definition statusDescription :: "byte \<Rightarrow> string" where
  "statusDescription statusCode =
     (case map_of PushNotificationErrorStatuses statusCode of None \<Rightarrow> [] | Some d \<Rightarrow> d)"

text \<open>
  A \<^verbatim>\<open>CommandError\<close> holds the underlying error (\<open>None\<close> for \<^verbatim>\<open>nil\<close>) and
  the command it belongs to (\<open>None\<close> for \<^verbatim>\<open>nil\<close>).
\<close>

record 'c CommandError =
  commandError :: "error option"
  command :: "'c option"

definition NewCommandError :: "error option \<Rightarrow> 'c option \<Rightarrow> 'c CommandError" where
  "NewCommandError err cmd = \<lparr>commandError = err, command = cmd\<rparr>"

definition NewCommandErrorFromAPNSResponse :: "byte list \<Rightarrow> 'c \<Rightarrow> 'c CommandError" where
  "NewCommandErrorFromAPNSResponse data cmd =
     (let err =
        (if length data \<noteq> 6 then Some (ErrorNew ''apns: Unrecognized APNS response'')
         else
           (let statusCode = data ! 1;
                notificationIdentifier = EncodeToString (drop 2 data);
                apnsErrorDescription = statusDescription statusCode
            in if apnsErrorDescription \<noteq> []
               then Some (ErrorNew (''apns: '' @ apnsErrorDescription @
                                    '' for notification #'' @ notificationIdentifier))
               else None))
      in NewCommandError err (Some cmd))"

section \<open>Notifications and their binary encoding\<close>

definition DeviceTokenItemID :: byte where "DeviceTokenItemID = 1"
definition DeviceTokenItemLength :: nat where "DeviceTokenItemLength = 32"
definition PayloadItemID :: byte where "PayloadItemID = 2"
definition PayloadItemMaxLength :: nat where "PayloadItemMaxLength = 2048"
definition NotificationIdentifierItemID :: byte where "NotificationIdentifierItemID = 3"
definition NotificationIdentifierItemLength :: nat where "NotificationIdentifierItemLength = 4"
definition ExpirationDateItemID :: byte where "ExpirationDateItemID = 4"
definition ExpirationDateItemLength :: nat where "ExpirationDateItemLength = 4"
definition PriorityItemID :: byte where "PriorityItemID = 5"
definition PriorityItemLength :: nat where "PriorityItemLength = 1"
definition SendNotificationCommandValue :: byte where "SendNotificationCommandValue = 2"

text \<open>\<^verbatim>\<open>strconv.Itoa\<close>: the decimal digits of an integer, with a sign when negative.\<close>

fun decimal :: "nat \<Rightarrow> string" where
  "decimal n =
     (if n < 10 then [''0123456789'' ! n]
      else decimal (n div 10) @ [''0123456789'' ! (n mod 10)])"

definition Itoa :: "int \<Rightarrow> string" where
  "Itoa i = (if i < 0 then CHR ''-'' # decimal (nat (- i)) else decimal (nat i))"

text \<open>
  The values of type \<^verbatim>\<open>interface{}\<close> (the alert and the custom fields) are of
  an arbitrary type \<open>'v\<close>. A Go map is kept as an association list with one entry
  for each key.
\<close>

record 'v Aps =
  Alert :: 'v
  Badge :: int
  Sound :: string
  ContentAvailable :: int
  Category :: string

record 'v Payload =
  Aps :: "'v Aps option"
  customValues :: "(string \<times> 'v) list"

definition AddCustomField :: "'v Payload \<Rightarrow> string \<Rightarrow> 'v \<Rightarrow> 'v Payload" where
  "AddCustomField p key val = p\<lparr>customValues := AList.update key val (customValues p)\<rparr>"

text \<open>
  The map that \<^verbatim>\<open>MarshalJSON\<close> builds and hands to \<^verbatim>\<open>json.Marshal\<close>: the
  \<^verbatim>\<open>aps\<close> object under the key \<^verbatim>\<open>aps\<close> and the custom values under their keys.
\<close>

datatype 'v field = ApsObject "'v Aps" | CustomValue 'v

type_synonym 'v marshal = "(string \<rightharpoonup> 'v field) \<Rightarrow> error + byte list"

fun addCustomValues ::
  "(string \<times> 'v) list \<Rightarrow> (string \<rightharpoonup> 'v field) \<Rightarrow> error + (string \<rightharpoonup> 'v field)" where
  "addCustomValues [] payload = Inr payload"
| "addCustomValues ((key, val) # rest) payload =
     (if key = ''aps''
      then Inl (ErrorNew ''apns/notification: 'aps' is a reserved and cannot be used for custom field'')
      else addCustomValues rest (payload(key \<mapsto> CustomValue val)))"

text \<open>
  \<^verbatim>\<open>json.Marshal\<close> of the standard library is a parameter \<open>marshal\<close> of the
  encoder: it serialises the map or fails.
\<close>

definition MarshalJSON :: "'v marshal \<Rightarrow> 'v Payload \<Rightarrow> error + byte list" where
  "MarshalJSON marshal p =
     (case Aps p of
        None \<Rightarrow> Inl (ErrorNew ''apns/notification: 'aps' object is required'')
      | Some aps \<Rightarrow>
          (case addCustomValues (customValues p) [''aps'' \<mapsto> ApsObject aps] of
             Inl e \<Rightarrow> Inl e
           | Inr payload \<Rightarrow> marshal payload))"

text \<open>
  \<^verbatim>\<open>JSON\<close> is \<^verbatim>\<open>json.Marshal(p)\<close> for the pointer \<^verbatim>\<open>p\<close>: a nil pointer is
  serialised as \<^verbatim>\<open>null\<close> without \<^verbatim>\<open>MarshalJSON\<close> being called, and an error of
  \<^verbatim>\<open>MarshalJSON\<close> comes back wrapped in a \<^verbatim>\<open>*json.MarshalerError\<close>.
\<close>

definition JSON :: "'v marshal \<Rightarrow> 'v Payload option \<Rightarrow> error + byte list" where
  "JSON marshal p =
     (case p of
        None \<Rightarrow> Inr [0x6e, 0x75, 0x6c, 0x6c]
      | Some p' \<Rightarrow>
          (case MarshalJSON marshal p' of
             Inl e \<Rightarrow> Inl (MarshalerError e)
           | Inr jsonBytes \<Rightarrow> Inr jsonBytes))"

text \<open>
  A \<^verbatim>\<open>time.Time\<close> is kept as its number of seconds after the epoch;
  \<^verbatim>\<open>Unix()\<close> returns it as an \<^verbatim>\<open>int64\<close>.
\<close>

definition Unix :: "int \<Rightarrow> 64 word" where
  "Unix t = word_of_int t"

record 'v Notification =
  DeviceToken :: string
  Payload :: "'v Payload option"
  NotificationIdentifier :: string
  ExpirationDate :: "int option"
  Priority :: byte

definition Notification_Bytes :: "'v marshal \<Rightarrow> 'v Notification \<Rightarrow> error + byte list" where
  "Notification_Bytes marshal n =
     (case DecodeString (DeviceToken n) of
        Inl deviceTokenError \<Rightarrow> Inl deviceTokenError
      | Inr token \<Rightarrow>
          if length token = DeviceTokenItemLength then
            (let frame1 = [DeviceTokenItemID] @ BigEndian_uint16 (of_nat DeviceTokenItemLength) @ token
             in case JSON marshal (Payload n) of
                  Inl payloadError \<Rightarrow> Inl payloadError
                | Inr payload \<Rightarrow>
                    if length payload > PayloadItemMaxLength then
                      Inl (ErrorNew (''apns/notification: Notification payload size has to be '' @
                             Itoa (int PayloadItemMaxLength) @ '' bytes at maximum''))
                    else
                      (let frame2 = frame1 @ [PayloadItemID] @
                                      BigEndian_uint16 (of_nat (length payload)) @ payload
                       in case DecodeString (NotificationIdentifier n) of
                            Inl identifierError \<Rightarrow> Inl identifierError
                          | Inr identifier \<Rightarrow>
                              if length identifier \<noteq> NotificationIdentifierItemLength then
                                Inl (ErrorNew (''apns/notification: Notification identifier has to be a hex encoded '' @
                                       Itoa (int NotificationIdentifierItemLength) @
                                       '' bytes longs binary string''))
                              else
                                (let frame3 = frame2 @ [NotificationIdentifierItemID] @
                                        BigEndian_uint16 (of_nat NotificationIdentifierItemLength) @
                                        identifier;
                                     frame4 =
                                       (case ExpirationDate n of
                                          None \<Rightarrow> frame3
                                        | Some t \<Rightarrow>
                                            frame3 @ [ExpirationDateItemID] @
                                            BigEndian_uint16 (of_nat ExpirationDateItemLength) @
                                            BigEndian_int64 (Unix t))
                                 in Inr (frame4 @ [PriorityItemID] @
                                         BigEndian_uint16 (of_nat PriorityItemLength) @
                                         [Priority n]))))
          else
            Inl (ErrorNew (''apns/notification: Device token has to be hex encoded '' @
                   Itoa (int DeviceTokenItemLength) @ '' bytes long binary string'')))"

text \<open>
  A step of the program returns, panics (a nil pointer is dereferenced, a
  closed channel is closed or sent on) or blocks.
\<close>

datatype 'a outcome = Returns 'a | Panics | Blocks

definition then_do :: "'a outcome \<Rightarrow> ('a \<Rightarrow> 'b outcome) \<Rightarrow> 'b outcome" where
  "then_do m f = (case m of Returns x \<Rightarrow> f x | Panics \<Rightarrow> Panics | Blocks \<Rightarrow> Blocks)"

text \<open>
  A command refers to its notification (\<open>None\<close> for a nil pointer) and owns
  an error channel. The channel is a reference: its state is threaded next to
  the command by the functions that send on it or close it.
  \<^verbatim>\<open>Bytes\<close> calls \<^verbatim>\<open>cmd.Notification.Bytes()\<close>, which reads the device token
  of the notification first and panics on a nil pointer; \<^verbatim>\<open>Identifier\<close> checks
  for the nil pointer.
\<close>

record 'v PushNotificationCommand =
  Notification :: "'v Notification option"

definition PushNotificationCommand_Bytes ::
  "'v marshal \<Rightarrow> 'v PushNotificationCommand \<Rightarrow> (error + byte list) outcome" where
  "PushNotificationCommand_Bytes marshal cmd =
     (case Notification cmd of
        None \<Rightarrow> Panics
      | Some n \<Rightarrow>
          (case Notification_Bytes marshal n of
             Inl err \<Rightarrow> Returns (Inl err)
           | Inr notificationBytes \<Rightarrow>
               Returns (Inr ([SendNotificationCommandValue] @
                             BigEndian_uint32 (of_nat (length notificationBytes)) @
                             notificationBytes))))"

definition Identifier :: "'v PushNotificationCommand \<Rightarrow> string" where
  "Identifier cmd =
     (case Notification cmd of None \<Rightarrow> [] | Some n \<Rightarrow> NotificationIdentifier n)"

section \<open>The feedback tuple decoder\<close>

definition TimestampItemLength :: nat where "TimestampItemLength = 4"
definition DeviceTokenLengthItemLength :: nat where "DeviceTokenLengthItemLength = 2"

text \<open>
  \<^verbatim>\<open>time.Unix(int64(timestamp), 0)\<close> is kept as the number of seconds after
  the epoch.
\<close>

record FeedbackDeviceEntry =
  Timestamp :: int
  DeviceToken :: string

record FeedbackResponse =
  Devices :: "FeedbackDeviceEntry list"

text \<open>
  \<^verbatim>\<open>addEntryFromBytes\<close> returns the response as the call leaves it together with
  the error it returns (\<open>None\<close> for \<^verbatim>\<open>nil\<close>).
\<close>

definition addEntryFromBytes ::
  "FeedbackResponse \<Rightarrow> byte list \<Rightarrow> FeedbackResponse \<times> error option" where
  "addEntryFromBytes fs data =
     (if length data \<noteq> TimestampItemLength + DeviceTokenLengthItemLength + DeviceTokenItemLength
      then (fs, Some (ErrorNew ''apns: Unrecognized Feedback Service entry''))
      else
        (case BigEndian_read_uint32 (take 4 data) of
           Inl e \<Rightarrow> (fs, Some e)
         | Inr timestamp \<Rightarrow>
             (fs\<lparr>Devices := Devices fs @
                   [\<lparr>Timestamp = uint timestamp, FeedbackDeviceEntry.DeviceToken = EncodeToString (drop 6 data)\<rparr>]\<rparr>,
              None)))"

text \<open>
  \<^verbatim>\<open>CheckFeedbackService\<close> reads the connection in a loop into one buffer of 38
  bytes. The peer is a list of read results, each the bytes that a call of
  \<^verbatim>\<open>Read\<close> delivers and the error it returns; a read past the end of the list
  finds the connection closed (no bytes, \<^verbatim>\<open>io.EOF\<close>), so that a peer that
  sends for ever is not considered. \<^verbatim>\<open>Read\<close> overwrites the front of the
  buffer and leaves the rest as it was.
\<close>

definition conn_Read :: "byte list \<Rightarrow> byte list \<Rightarrow> nat \<times> byte list" where
  "conn_Read p data =
     (let n = min (length p) (length data) in (n, take n data @ drop n p))"

fun readLoop ::
  "(byte list \<times> error option) list \<Rightarrow> byte list \<Rightarrow> FeedbackResponse \<Rightarrow>
   FeedbackResponse \<times> error option" where
  "readLoop [] responseBytes rsp = (rsp, None)"
| "readLoop ((data, err) # rest) responseBytes rsp =
     (let (read, responseBytes') = conn_Read responseBytes data;
          rsp' = (if read > 0 then fst (addEntryFromBytes rsp responseBytes') else rsp)
      in case err of
           None \<Rightarrow> readLoop rest responseBytes' rsp'
         | Some e \<Rightarrow>
             if e = EOF then (rsp', None)
             else if e = Timeout then (rsp', None)
             else readLoop rest responseBytes' rsp')"

record feedback_conn =
  dial_error :: "error option"
  handshake_error :: "error option"
  reads :: "(byte list \<times> error option) list"

definition CheckFeedbackService :: "feedback_conn \<Rightarrow> FeedbackResponse option \<times> error option" where
  "CheckFeedbackService conn =
     (case dial_error conn of
        Some err \<Rightarrow> (None, Some err)
      | None \<Rightarrow>
          (case handshake_error conn of
             Some err \<Rightarrow> (None, Some err)
           | None \<Rightarrow>
               (let (rsp, err) = readLoop (reads conn) (replicate 38 0) \<lparr>Devices = []\<rparr>
                in (Some rsp, err))))"

section \<open>Channels\<close>

text \<open>
  A Go channel is its buffer, its capacity, the number of goroutines parked in
  a receive on it, the values handed to such receivers so far and whether it
  has been closed.
\<close>

record 'a chan =
  buf :: "'a list"
  cap :: nat
  recvq :: nat
  received :: "'a list"
  closed :: bool

definition make_chan :: "nat \<Rightarrow> 'a chan" where
  "make_chan n = \<lparr>buf = [], cap = n, recvq = 0, received = [], closed = False\<rparr>"

text \<open>
  A send can proceed when a receiver is parked on the channel or the buffer has
  room; the value goes to a parked receiver if there is one and into the buffer
  otherwise.
\<close>

definition can_send :: "'a chan \<Rightarrow> bool" where
  "can_send ch \<longleftrightarrow> recvq ch > 0 \<or> length (buf ch) < cap ch"

definition deliver :: "'a chan \<Rightarrow> 'a \<Rightarrow> 'a chan" where
  "deliver ch v =
     (if recvq ch > 0 then ch\<lparr>recvq := recvq ch - 1, received := received ch @ [v]\<rparr>
      else ch\<lparr>buf := buf ch @ [v]\<rparr>)"

text \<open>The statement \<^verbatim>\<open>ch <- v\<close>: a send on a closed channel panics.\<close>

definition chan_send :: "'a chan \<Rightarrow> 'a \<Rightarrow> 'a chan outcome" where
  "chan_send ch v =
     (if closed ch then Panics
      else if can_send ch then Returns (deliver ch v)
      else Blocks)"

text \<open>
  The statement \<^verbatim>\<open>select { case ch <- v: ... default: ... }\<close>: the value is sent
  if the send can proceed and dropped otherwise; the flag tells which.
\<close>

definition offer :: "'a chan \<Rightarrow> 'a \<Rightarrow> 'a chan" where
  "offer ch v = (if can_send ch then deliver ch v else ch)"

definition select_send :: "'a chan \<Rightarrow> 'a \<Rightarrow> ('a chan \<times> bool) outcome" where
  "select_send ch v = (if closed ch then Panics else Returns (offer ch v, can_send ch))"

text \<open>
  The statement \<^verbatim>\<open>select { case <-ch: ... default: ... }\<close>; the flag tells
  whether the receive was taken.
\<close>

definition select_recv :: "'a chan \<Rightarrow> 'a chan \<times> bool" where
  "select_recv ch =
     (case buf ch of
        x # xs \<Rightarrow> (ch\<lparr>buf := xs\<rparr>, True)
      | [] \<Rightarrow> (ch, closed ch))"

text \<open>
  The statement \<^verbatim>\<open>v := <-ch\<close> on a channel that the program never closes: the
  oldest value of the buffer is taken, and with an empty buffer the goroutine
  parks.
\<close>

definition chan_recv :: "'a chan \<Rightarrow> ('a \<times> 'a chan) outcome" where
  "chan_recv ch =
     (case buf ch of
        x # xs \<Rightarrow> Returns (x, ch\<lparr>buf := xs\<rparr>)
      | [] \<Rightarrow> Blocks)"

text \<open>The statement \<^verbatim>\<open>close(ch)\<close>; the parked receivers are released.\<close>

definition chan_close :: "'a chan \<Rightarrow> 'a chan outcome" where
  "chan_close ch = (if closed ch then Panics else Returns (ch\<lparr>closed := True, recvq := 0\<rparr>))"

section \<open>The client and its workers\<close>

text \<open>
  Of a worker: its work queue (the channel without buffer on which it is
  handed its commands), its ready and pause signals (channels of capacity 1),
  the errors it has sent on its error signal, the number of reconnections it
  has started and the frames it has handed to \<^verbatim>\<open>Write\<close>. Of the client: the
  queue of commands, the queue of workers and the process-wide queue of command
  errors. One worker is followed, so that the queue of workers holds the work
  queue of this worker (written \<open>()\<close>) or nothing. The state of a step is the
  worker, the client and the error channel of the command in hand.
\<close>

record 'c worker =
  workQueue :: "'c chan"
  readySignal :: "bool chan"
  pauseSignal :: "bool chan"
  errorSignal :: "'c CommandError list"
  reconnects :: nat
  writes :: "byte list list"

record 'c Client =
  commandsQueue :: "'c chan"
  workerQueue :: "unit chan"
  commandErrorsQueue :: "'c CommandError chan"

record 'c world =
  worker :: "'c worker"
  client :: "'c Client"
  Errors :: "'c CommandError chan"

text \<open>
  \<^verbatim>\<open>w.errorSignal <- err\<close>: the goroutine that \<^verbatim>\<open>init\<close> starts receives every
  error of the worker and passes it on to the queue of the client if there is
  room for it, without waiting.
\<close>

definition errorSignal_send :: "'c CommandError \<Rightarrow> 'c world \<Rightarrow> 'c world outcome" where
  "errorSignal_send err s =
     then_do (select_send (commandErrorsQueue (client s)) err)
       (\<lambda>(q, sent).
          Returns (s\<lparr>worker := (worker s)\<lparr>errorSignal := errorSignal (worker s) @ [err]\<rparr>,
                     client := (client s)\<lparr>commandErrorsQueue := q\<rparr>\<rparr>))"

text \<open>\<^verbatim>\<open>select { case cmd.Errors() <- commandError: break; default: break }\<close>\<close>

definition Errors_offer :: "'c CommandError \<Rightarrow> 'c world \<Rightarrow> 'c world outcome" where
  "Errors_offer cmdError s =
     then_do (select_send (Errors s) cmdError) (\<lambda>(ch, sent). Returns (s\<lparr>Errors := ch\<rparr>))"

text \<open>
  Both \<^verbatim>\<open>executeCommand\<close> and \<^verbatim>\<open>executionLoopRoutine\<close> report an error by
  these two statements, one after the other.
\<close>

definition report :: "'c CommandError \<Rightarrow> 'c world \<Rightarrow> 'c world outcome" where
  "report cmdError s = then_do (errorSignal_send cmdError s) (Errors_offer cmdError)"

text \<open>
  \<^verbatim>\<open>reconnect\<close> sends the pause signal and starts a goroutine that closes the
  connection and dials again; the goroutine runs beside the worker and is only
  counted here.
\<close>

definition reconnect :: "'c world \<Rightarrow> 'c world outcome" where
  "reconnect s =
     then_do (chan_send (pauseSignal (worker s)) True)
       (\<lambda>p. Returns (s\<lparr>worker := (worker s)\<lparr>pauseSignal := p,
                                              reconnects := reconnects (worker s) + 1\<rparr>\<rparr>))"

text \<open>
  What the connection does during one command: the error of \<^verbatim>\<open>Write\<close>, the
  bytes that \<^verbatim>\<open>Read\<close> delivers into the buffer of 6 bytes and the error of
  \<^verbatim>\<open>Read\<close>.
\<close>

record conn =
  write_error :: "error option"
  read_bytes :: "byte list"
  read_error :: "error option"

definition executeCommand ::
  "'v marshal \<Rightarrow> conn \<Rightarrow> 'v PushNotificationCommand \<Rightarrow> 'v PushNotificationCommand world \<Rightarrow>
   ('v PushNotificationCommand world \<times> error option) outcome" where
  "executeCommand marshal c cmd s =
     then_do (PushNotificationCommand_Bytes marshal cmd)
      (\<lambda>encoded. case encoded of
        Inl err \<Rightarrow> Returns (s, Some err)
      | Inr cmdBytes \<Rightarrow>
          (let s1 = s\<lparr>worker := (worker s)\<lparr>writes := writes (worker s) @ [cmdBytes]\<rparr>\<rparr>
           in case write_error c of
                Some err \<Rightarrow>
                  if err = EOF then
                    then_do (reconnect s1)
                      (\<lambda>s2. Returns (s2, Some (ErrorNew
                         ''apns/worker: Error writing data. Connection appears to be closed by peer'')))
                  else Returns (s1, Some err)
              | None \<Rightarrow>
                  (let (read, responseBytes) = conn_Read (replicate 6 0) (read_bytes c);
                       err = (if read_error c = Some Timeout then None else read_error c)
                   in then_do
                        (if read > 0 then
                           (let cmdError = NewCommandErrorFromAPNSResponse responseBytes cmd
                            in report cmdError s1)
                         else Returns s1)
                        (\<lambda>s2. if read > 0 \<or> err = Some EOF then
                                then_do (reconnect s2)
                                  (\<lambda>s3. Returns (s3,
                                     if err = Some EOF then Some (ErrorNew
                                       ''apns/worker: Connection was closed by peer after reading data'')
                                     else err))
                              else Returns (s2, err)))))"

text \<open>
  The body of \<^verbatim>\<open>case command := <-w.workQueue\<close> in \<^verbatim>\<open>executionLoopRoutine\<close>:
  the worker has taken its ready signal, has put its work queue into the queue
  of workers and has been handed a command.
\<close>

definition executionLoopRoutine_command ::
  "'v marshal \<Rightarrow> conn \<Rightarrow> 'v PushNotificationCommand \<Rightarrow> 'v PushNotificationCommand world \<Rightarrow>
   'v PushNotificationCommand world outcome" where
  "executionLoopRoutine_command marshal c cmd s =
     then_do (executeCommand marshal c cmd s)
       (\<lambda>(s1, err).
          then_do
            (case err of
               None \<Rightarrow> Returns s1
             | Some e \<Rightarrow>
                 (let cmdError = NewCommandError (Some e) (Some cmd)
                  in report cmdError s1))
            (\<lambda>s2.
               then_do
                 (case select_recv (pauseSignal (worker s2)) of
                    (p, True) \<Rightarrow> Returns (s2\<lparr>worker := (worker s2)\<lparr>pauseSignal := p\<rparr>\<rparr>)
                  | (p, False) \<Rightarrow>
                      then_do (chan_send (readySignal (worker s2)) True)
                        (\<lambda>r. Returns (s2\<lparr>worker := (worker s2)\<lparr>readySignal := r\<rparr>\<rparr>)))
                 (\<lambda>s3. then_do (chan_close (Errors s3)) (\<lambda>ch. Returns (s3\<lparr>Errors := ch\<rparr>)))))"

text \<open>
  \<^verbatim>\<open>ExecuteCommand\<close> returns the error it returns (\<open>None\<close> for \<^verbatim>\<open>nil\<close>); the
  channel \<open>Errors\<close> of the state is the one of the command submitted.
\<close>

definition ExecuteCommand ::
  "'c \<Rightarrow> 'c world \<Rightarrow> ('c world \<times> 'c CommandError option) outcome" where
  "ExecuteCommand cmd s =
     then_do (select_send (commandsQueue (client s)) cmd)
       (\<lambda>(q, sent).
          if sent then Returns (s\<lparr>client := (client s)\<lparr>commandsQueue := q\<rparr>\<rparr>, None)
          else
            then_do (chan_close (Errors s))
              (\<lambda>ch. Returns (s\<lparr>Errors := ch\<rparr>,
                       Some (NewCommandError (Some (ErrorNew ''apns: Queue is full, dismissing command''))
                               (Some cmd)))))"

text \<open>
  The start of \<^verbatim>\<open>case <-w.readySignal\<close> in \<^verbatim>\<open>executionLoopRoutine\<close>: the
  worker takes its ready signal, puts its work queue into the queue of workers
  and parks in the receive on its work queue.
\<close>

definition executionLoopRoutine_ready :: "'c world \<Rightarrow> 'c world outcome" where
  "executionLoopRoutine_ready s =
     then_do (chan_recv (readySignal (worker s)))
       (\<lambda>(ready, r).
          then_do (chan_send (workerQueue (client s)) ())
            (\<lambda>wq. Returns
               (s\<lparr>worker := (worker s)
                      \<lparr>readySignal := r,
                       workQueue := (workQueue (worker s))
                                      \<lparr>recvq := recvq (workQueue (worker s)) + 1\<rparr>\<rparr>,
                  client := (client s)\<lparr>workerQueue := wq\<rparr>\<rparr>)))"



text \<open>
  The state in which a worker holds a command that has just been handed to it:
  its ready signal has been taken and its pause signal is empty, the queue of
  command errors is open, and the error channel of the command, made without a
  buffer by \<^verbatim>\<open>NewPushNotificationCommand\<close>, is open.
\<close>

definition idle_signal :: "bool chan \<Rightarrow> bool" where
  "idle_signal ch \<longleftrightarrow> \<not> closed ch \<and> cap ch = 1 \<and> buf ch = [] \<and> recvq ch = 0"

definition open_errors :: "'a chan \<Rightarrow> bool" where
  "open_errors ch \<longleftrightarrow> \<not> closed ch \<and> cap ch = 0 \<and> buf ch = []"

definition holds_command :: "'c world \<Rightarrow> bool" where
  "holds_command s \<longleftrightarrow>
     idle_signal (readySignal (worker s)) \<and> idle_signal (pauseSignal (worker s)) \<and>
     \<not> closed (commandErrorsQueue (client s)) \<and> open_errors (Errors s)"

text \<open>
  The state in which a worker waits for a command: its work queue, which is
  open and has no buffer, is in the queue of workers and the worker is parked
  on it; the rest is as above, and the queue of commands is open.
\<close>

definition registered :: "'c world \<Rightarrow> bool" where
  "registered s \<longleftrightarrow>
     \<not> closed (workQueue (worker s)) \<and> cap (workQueue (worker s)) = 0 \<and>
     buf (workQueue (worker s)) = [] \<and> recvq (workQueue (worker s)) = 1 \<and>
     \<not> closed (workerQueue (client s)) \<and> buf (workerQueue (client s)) = [()] \<and>
     \<not> closed (commandsQueue (client s)) \<and> holds_command s"

section \<open>Properties of the codec\<close>

subsection \<open>Big-endian words\<close>

lemma uint_byte_lt: "uint (b::byte) < 256"
  using uint_bounded [of b] by simp

lemma uint_ucast_byte: "uint (ucast (b::byte) :: 32 word) = uint b"
  by (simp add: uint_up_ucast is_up)

lemma uint_push_byte:
  assumes "n \<le> 24"
  shows "uint (push_bit n (ucast (b::byte)) :: 32 word) = 2 ^ n * uint b"
proof -
  have "uint b < 2 ^ 8" using uint_byte_lt [of b] by simp
  then have "2 ^ n * uint b < 2 ^ n * 2 ^ 8" by simp
  also have "\<dots> = (2::int) ^ (n + 8)" by (simp add: power_add)
  also have "\<dots> \<le> 2 ^ 32" using assms by (intro power_increasing) simp_all
  finally have lt: "2 ^ n * uint b < 2 ^ 32" .
  have "uint (push_bit n (ucast b) :: 32 word) = take_bit 32 (push_bit n (uint b))"
    by (simp add: unsigned_push_bit_eq uint_ucast_byte)
  also have "\<dots> = push_bit n (uint b)"
    using lt by (intro take_bit_int_eq_self) (simp_all add: push_bit_eq_mult mult.commute)
  finally show ?thesis by (simp add: push_bit_eq_mult mult.commute)
qed

lemma be32_or_add:
  fixes b0 b1 b2 b3 :: byte
  shows "(push_bit 24 (ucast b0) OR push_bit 16 (ucast b1) OR push_bit 8 (ucast b2) OR ucast b3 :: 32 word)
     = push_bit 24 (ucast b0) + (push_bit 16 (ucast b1) + (push_bit 8 (ucast b2) + ucast b3))"
proof -
  have 1: "(push_bit 8 (ucast b2) OR ucast b3 :: 32 word) = push_bit 8 (ucast b2) + ucast b3"
    by (rule disjunctive_add [symmetric]) (auto simp: bit_simps dest: bit_imp_le_length)
  have 2: "(push_bit 16 (ucast b1) OR push_bit 8 (ucast b2) OR ucast b3 :: 32 word)
      = push_bit 16 (ucast b1) + (push_bit 8 (ucast b2) OR ucast b3)"
    by (rule disjunctive_add [symmetric]) (auto simp: bit_simps dest: bit_imp_le_length)
  have 3: "(push_bit 24 (ucast b0) OR push_bit 16 (ucast b1) OR push_bit 8 (ucast b2) OR ucast b3 :: 32 word)
      = push_bit 24 (ucast b0) + (push_bit 16 (ucast b1) OR push_bit 8 (ucast b2) OR ucast b3)"
    by (rule disjunctive_add [symmetric]) (auto simp: bit_simps dest: bit_imp_le_length)
  show ?thesis unfolding 3 unfolding 2 unfolding 1 ..
qed

lemma be32_val:
  fixes b0 b1 b2 b3 :: byte
  shows "uint (push_bit 24 (ucast b0) OR push_bit 16 (ucast b1) OR push_bit 8 (ucast b2) OR ucast b3 :: 32 word)
     = 16777216 * uint b0 + 65536 * uint b1 + 256 * uint b2 + uint b3"
proof -
  let ?a = "push_bit 24 (ucast b0) :: 32 word"
  let ?b = "push_bit 16 (ucast b1) :: 32 word"
  let ?c = "push_bit 8 (ucast b2) :: 32 word"
  let ?d = "ucast b3 :: 32 word"
  have a: "uint ?a = 16777216 * uint b0" using uint_push_byte [of 24 b0] by simp
  have b: "uint ?b = 65536 * uint b1" using uint_push_byte [of 16 b1] by simp
  have c: "uint ?c = 256 * uint b2" using uint_push_byte [of 8 b2] by simp
  have d: "uint ?d = uint b3" by (rule uint_ucast_byte)
  note bnd = uint_byte_lt [of b0] uint_byte_lt [of b1] uint_byte_lt [of b2] uint_byte_lt [of b3]
  have cd: "uint (?c + ?d) = uint ?c + uint ?d"
    using bnd by (intro uint_add_lem [THEN iffD1]) (simp add: c d)
  have bcd: "uint (?b + (?c + ?d)) = uint ?b + uint (?c + ?d)"
    using bnd by (intro uint_add_lem [THEN iffD1]) (simp add: b c d cd)
  have abcd: "uint (?a + (?b + (?c + ?d))) = uint ?a + uint (?b + (?c + ?d))"
    using bnd by (intro uint_add_lem [THEN iffD1]) (simp add: a b c d cd bcd)
  show ?thesis
    unfolding be32_or_add by (simp add: abcd bcd cd a b c d)
qed

lemma take4_nth:
  assumes "4 \<le> length xs"
  shows "take 4 xs = [xs ! 0, xs ! 1, xs ! 2, xs ! 3]"
proof -
  obtain b0 r0 where 0: "xs = b0 # r0" using assms by (cases xs) auto
  obtain b1 r1 where 1: "r0 = b1 # r1" using assms 0 by (cases r0) auto
  obtain b2 r2 where 2: "r1 = b2 # r2" using assms 0 1 by (cases r1) auto
  obtain b3 r3 where 3: "r2 = b3 # r3" using assms 0 1 2 by (cases r2) auto
  show ?thesis by (simp add: 0 1 2 3)
qed

subsection \<open>The feedback tuple decoder\<close>

text \<open>
  Claim C10. The decoder of a feedback tuple never looks at the two bytes of
  the token length: every input of exactly 38 bytes is accepted and appends an
  entry whose timestamp is the big-endian unsigned number in bytes 0 to 3 (in
  seconds after the epoch) and whose device token is the hexadecimal rendering
  of bytes 6 to 37; replacing bytes 4 and 5 by any other values changes nothing.
\<close>

theorem addEntryFromBytes_ignores_token_length:
  assumes "length data = 38"
  shows "addEntryFromBytes fs data =
           (fs\<lparr>Devices := Devices fs @
               [\<lparr>Timestamp = 16777216 * uint (data ! 0) + 65536 * uint (data ! 1)
                               + 256 * uint (data ! 2) + uint (data ! 3),
                 FeedbackDeviceEntry.DeviceToken = EncodeToString (drop 6 data)\<rparr>]\<rparr>, None)
         \<and> addEntryFromBytes fs (data[4 := x, 5 := y]) = addEntryFromBytes fs data"
proof -
  have t: "take 4 data = [data ! 0, data ! 1, data ! 2, data ! 3]"
    using assms by (intro take4_nth) simp
  have d: "drop 6 (data[4 := x, 5 := y]) = drop 6 data"
    by simp
  have "addEntryFromBytes fs (data[4 := x, 5 := y]) = addEntryFromBytes fs data"
    by (simp add: addEntryFromBytes_def d split: sum.splits)
  moreover have "addEntryFromBytes fs data =
           (fs\<lparr>Devices := Devices fs @
               [\<lparr>Timestamp = 16777216 * uint (data ! 0) + 65536 * uint (data ! 1)
                               + 256 * uint (data ! 2) + uint (data ! 3),
                 FeedbackDeviceEntry.DeviceToken = EncodeToString (drop 6 data)\<rparr>]\<rparr>, None)"
    using assms
    by (simp add: addEntryFromBytes_def t be32_val TimestampItemLength_def
          DeviceTokenLengthItemLength_def DeviceTokenItemLength_def)
  ultimately show ?thesis by simp
qed

theorem addEntryFromBytes_ignores_token_length_witness:
  "length ([0, 0, 0, 2, 0xAB, 0xCD] @ replicate 32 (0xff::byte)) = 38 \<and>
   addEntryFromBytes \<lparr>Devices = []\<rparr> ([0, 0, 0, 2, 0xAB, 0xCD] @ replicate 32 0xff) =
     (\<lparr>Devices = [\<lparr>Timestamp = 2,
                    FeedbackDeviceEntry.DeviceToken = replicate 64 (CHR ''f'')\<rparr>]\<rparr>, None)"
proof -
  have l: "length ([0, 0, 0, 2, 0xAB, 0xCD] @ replicate 32 (0xff::byte)) = 38" by simp
  have "EncodeToString (replicate n (0xff::byte)) = replicate (2 * n) (CHR ''f'')" for n
    by (induction n) (simp_all add: EncodeToString_def hextable_def)
  from this [of 32]
  have e: "EncodeToString (replicate 32 (0xff::byte)) = replicate 64 (CHR ''f'')" by simp
  show ?thesis
    using addEntryFromBytes_ignores_token_length [OF l, of "\<lparr>Devices = []\<rparr>" 0 0] e
    by simp
qed

subsection \<open>The error response decoder\<close>

lemma length_EncodeToString: "length (EncodeToString bs) = 2 * length bs"
  by (induction bs) (simp_all add: EncodeToString_def)

lemma statusDescription_table:
  "statusDescription c \<noteq> [] \<longleftrightarrow> (c, statusDescription c) \<in> set PushNotificationErrorStatuses"
  by (auto simp: statusDescription_def PushNotificationErrorStatuses_def)

text \<open>
  Claim C2, as stated: a response of 6 bytes whose first byte is not 8 is
  reported as an unrecognized response. The decoder never reads the first
  byte: the response \<^verbatim>\<open>07 08 aa bb cc dd\<close> is decoded like an error response.
\<close>

theorem NewCommandErrorFromAPNSResponse_command_byte_counterexample:
  "length [7, 8, 0xaa, 0xbb, 0xcc, 0xdd :: byte] = 6 \<and>
   [7, 8, 0xaa, 0xbb, 0xcc, 0xdd :: byte] ! 0 \<noteq> 8 \<and>
   commandError (NewCommandErrorFromAPNSResponse [7, 8, 0xaa, 0xbb, 0xcc, 0xdd] ()) =
     Some (ErrorNew ''apns: Invalid token for notification #aabbccdd'')"
  by (simp add: NewCommandErrorFromAPNSResponse_def NewCommandError_def statusDescription_def
       PushNotificationErrorStatuses_def EncodeToString_def hextable_def)

text \<open>
  Claim C2, amended. An input whose length is not 6 gives the error
  "Unrecognized APNS response". For an input of 6 bytes whose status (byte 1)
  is one of 0 to 8, 10 and 255, the error is "apns: ", the description of that
  status in the table, " for notification #" and the 8 hexadecimal digits of
  bytes 2 to 5. The first byte has no influence on the result, and the error
  refers to the command.
\<close>

theorem NewCommandErrorFromAPNSResponse_decodes:
  "(length data \<noteq> 6 \<longrightarrow>
      commandError (NewCommandErrorFromAPNSResponse data cmd) =
        Some (ErrorNew ''apns: Unrecognized APNS response'')) \<and>
   (length data = 6 \<and> data ! 1 \<in> {0, 1, 2, 3, 4, 5, 6, 7, 8, 10, 255} \<longrightarrow>
      (\<exists>d. (data ! 1, d) \<in> set PushNotificationErrorStatuses \<and>
           commandError (NewCommandErrorFromAPNSResponse data cmd) =
             Some (ErrorNew (''apns: '' @ d @ '' for notification #'' @ EncodeToString (drop 2 data))) \<and>
           length (EncodeToString (drop 2 data)) = 8)) \<and>
   NewCommandErrorFromAPNSResponse (data[0 := b]) cmd = NewCommandErrorFromAPNSResponse data cmd \<and>
   command (NewCommandErrorFromAPNSResponse data cmd) = Some cmd"
proof -
  have 1: "length data \<noteq> 6 \<longrightarrow>
      commandError (NewCommandErrorFromAPNSResponse data cmd) =
        Some (ErrorNew ''apns: Unrecognized APNS response'')"
    by (simp add: NewCommandErrorFromAPNSResponse_def NewCommandError_def)
  have 2: "\<exists>d. (data ! 1, d) \<in> set PushNotificationErrorStatuses \<and>
           commandError (NewCommandErrorFromAPNSResponse data cmd) =
             Some (ErrorNew (''apns: '' @ d @ '' for notification #'' @ EncodeToString (drop 2 data))) \<and>
           length (EncodeToString (drop 2 data)) = 8"
    if l: "length data = 6" and t: "data ! 1 \<in> {0, 1, 2, 3, 4, 5, 6, 7, 8, 10, 255}"
  proof -
    have ne: "statusDescription (data ! 1) \<noteq> []"
      using t by (auto simp: statusDescription_def PushNotificationErrorStatuses_def)
    then have "(data ! 1, statusDescription (data ! 1)) \<in> set PushNotificationErrorStatuses"
      by (simp only: statusDescription_table)
    moreover have "commandError (NewCommandErrorFromAPNSResponse data cmd) =
        Some (ErrorNew (''apns: '' @ statusDescription (data ! 1) @ '' for notification #'' @
                        EncodeToString (drop 2 data)))"
      using l ne by (simp add: NewCommandErrorFromAPNSResponse_def NewCommandError_def)
    moreover have "length (EncodeToString (drop 2 data)) = 8"
      using l by (simp add: length_EncodeToString)
    ultimately show ?thesis by blast
  qed
  have 3: "NewCommandErrorFromAPNSResponse (data[0 := b]) cmd = NewCommandErrorFromAPNSResponse data cmd"
    by (simp add: NewCommandErrorFromAPNSResponse_def)
  have 4: "command (NewCommandErrorFromAPNSResponse data cmd) = Some cmd"
    by (simp add: NewCommandErrorFromAPNSResponse_def NewCommandError_def)
  from 1 2 3 4 show ?thesis by blast
qed

theorem NewCommandErrorFromAPNSResponse_decodes_witness:
  "length [8, 8, 0xaa, 0xbb, 0xcc, 0xdd :: byte] = 6 \<and>
   [8, 8, 0xaa, 0xbb, 0xcc, 0xdd :: byte] ! 1 \<in> {0, 1, 2, 3, 4, 5, 6, 7, 8, 10, 255} \<and>
   commandError (NewCommandErrorFromAPNSResponse [8, 8, 0xaa, 0xbb, 0xcc, 0xdd] ()) =
     Some (ErrorNew ''apns: Invalid token for notification #aabbccdd'') \<and>
   length [8 :: byte] \<noteq> 6 \<and>
   commandError (NewCommandErrorFromAPNSResponse [8] ()) =
     Some (ErrorNew ''apns: Unrecognized APNS response'')"
proof -
  let ?d = "[8, 8, 0xaa, 0xbb, 0xcc, 0xdd :: byte]"
  have l: "length ?d = 6" by simp
  have t: "?d ! 1 \<in> {0, 1, 2, 3, 4, 5, 6, 7, 8, 10, 255}" by simp
  have h: "EncodeToString (drop 2 ?d) = ''aabbccdd''"
    by (simp add: EncodeToString_def hextable_def)
  from NewCommandErrorFromAPNSResponse_decodes [of ?d "()" 0] l t
  obtain d where d: "(?d ! 1, d) \<in> set PushNotificationErrorStatuses"
    and e: "commandError (NewCommandErrorFromAPNSResponse ?d ()) =
             Some (ErrorNew (''apns: '' @ d @ '' for notification #'' @ EncodeToString (drop 2 ?d)))"
    by blast
  from d have "d = ''Invalid token''" by (simp add: PushNotificationErrorStatuses_def)
  with e h have a: "commandError (NewCommandErrorFromAPNSResponse ?d ()) =
     Some (ErrorNew ''apns: Invalid token for notification #aabbccdd'')" by simp
  have "length [8 :: byte] \<noteq> 6" by simp
  with NewCommandErrorFromAPNSResponse_decodes [of "[8]" "()" 0]
  have b: "commandError (NewCommandErrorFromAPNSResponse [8] ()) =
     Some (ErrorNew ''apns: Unrecognized APNS response'')" by blast
  from l t a b show ?thesis by simp
qed

subsection \<open>The notification encoder\<close>

lemma DecodeString_zeros: "DecodeString (replicate (2 * n) CHR ''0'') = Inr (replicate n 0)"
  by (induction n) (simp_all add: fromHexChar_def)







text \<open>
  Claim C9: a device token of 62 hexadecimal digits is rejected with a message
  that reports the decoded length, "length 31 bytes". The token decodes to 31
  bytes and is rejected, but the message names only the required length.
\<close>

theorem Notification_Bytes_short_token_message:
  "DecodeString (replicate 62 CHR ''0'') = Inr (replicate 31 0) \<and>
   Notification_Bytes marshal (n\<lparr>Notification.DeviceToken := replicate 62 CHR ''0''\<rparr>) =
     Inl (ErrorNew ''apns/notification: Device token has to be hex encoded 32 bytes long binary string'') \<and>
   \<not> sublist ''length 31 bytes''
        ''apns/notification: Device token has to be hex encoded 32 bytes long binary string''"
proof -
  have t: "DecodeString (replicate 62 CHR ''0'') = Inr (replicate 31 0)"
    using DecodeString_zeros [of 31] by simp
  have s: "\<not> sublist ''length 31 bytes''
        ''apns/notification: Device token has to be hex encoded 32 bytes long binary string''"
    by code_simp
  show ?thesis
    by (simp add: t s Notification_Bytes_def DeviceTokenItemLength_def Itoa_def)
qed

text \<open>
  Every frame starts with the command byte 2 and the length of the rest as a
  big-endian number of 4 bytes; the rest is never too long for that number.
\<close>

lemma Notification_Bytes_length:
  assumes "Notification_Bytes marshal n = Inr body"
  shows "length body \<le> 2108"
  using assms
  by (auto simp: Notification_Bytes_def Let_def DeviceTokenItemLength_def PayloadItemMaxLength_def
        NotificationIdentifierItemLength_def BigEndian_uint16_def BigEndian_int64_def
      split: sum.splits if_splits option.splits)

lemma PushNotificationCommand_Bytes_frame:
  assumes "PushNotificationCommand_Bytes marshal cmd = Returns (Inr frame)"
  shows "\<exists>n body. Notification cmd = Some n \<and> Notification_Bytes marshal n = Inr body \<and>
               frame = [2] @ BigEndian_uint32 (of_nat (length body)) @ body \<and>
               unat (of_nat (length body) :: 32 word) = length body"
proof -
  from assms obtain n body where n: "Notification cmd = Some n"
    and b: "Notification_Bytes marshal n = Inr body"
    and f: "frame = [2] @ BigEndian_uint32 (of_nat (length body)) @ body"
    by (auto simp: PushNotificationCommand_Bytes_def SendNotificationCommandValue_def
          split: sum.splits option.splits)
  from Notification_Bytes_length [OF b] have "length body < 2 ^ 32" by simp
  then have "unat (of_nat (length body) :: 32 word) = length body"
    by (simp add: unat_of_nat take_bit_nat_eq_self)
  with n b f show ?thesis by blast
qed

text \<open>
  Whenever a notification with an expiration date encodes, the item of the
  expiration date declares 4 bytes and is followed by the 8 bytes of an
  \<^verbatim>\<open>int64\<close>.
\<close>

lemma Notification_Bytes_expiration_layout:
  assumes "Notification_Bytes marshal n = Inr body" and "ExpirationDate n = Some t"
  shows "\<exists>pre. body = pre @ [4, 0, 4] @ BigEndian_int64 (Unix t) @ [5, 0, 1, Priority n] \<and>
               length (BigEndian_int64 (Unix t)) = 8"
  using assms
  by (auto simp: Notification_Bytes_def Let_def ExpirationDateItemID_def
        ExpirationDateItemLength_def PriorityItemID_def PriorityItemLength_def
        BigEndian_uint16_def BigEndian_int64_def
      split: sum.splits if_splits)

text \<open>
  Claim C1: in an encoded frame the sizes declared by the item headers add up
  to the frame length, and the item of the expiration date is the id 4, the
  length 4 and 4 bytes of seconds. The frame of a notification with an empty
  \<^verbatim>\<open>aps\<close> object (serialised as \<^verbatim>\<open>{"aps":{}}\<close>) that expires one second
  after the epoch has the frame length 70; its expiration item declares 4 bytes
  and carries 8, so that the declared sizes (35 + 13 + 7 + 7 + 4) add up to 66.
\<close>

theorem PushNotificationCommand_Bytes_expiration_item:
  "PushNotificationCommand_Bytes (\<lambda>m. Inr [0x7b, 0x22, 0x61, 0x70, 0x73, 0x22, 0x3a, 0x7b, 0x7d, 0x7d])
     \<lparr>Notification = Some
       \<lparr>Notification.DeviceToken = replicate 64 CHR ''0'',
        Payload = Some \<lparr>Aps = Some \<lparr>Alert = (), Badge = 0, Sound = [], ContentAvailable = 0, Category = []\<rparr>,
                        customValues = []\<rparr>,
        NotificationIdentifier = ''aabbccdd'', ExpirationDate = Some 1, Priority = 10\<rparr>\<rparr> =
   Returns (Inr ([2, 0, 0, 0, 70] @
        [1, 0, 32] @ replicate 32 0 @
        [2, 0, 10, 0x7b, 0x22, 0x61, 0x70, 0x73, 0x22, 0x3a, 0x7b, 0x7d, 0x7d] @
        [3, 0, 4, 0xaa, 0xbb, 0xcc, 0xdd] @
        [4, 0, 4, 0, 0, 0, 0, 0, 0, 0, 1] @
        [5, 0, 1, 10]))"
proof -
  have t: "DecodeString (replicate 64 CHR ''0'') = Inr (replicate 32 0)"
    using DecodeString_zeros [of 32] by simp
  show ?thesis
    by (simp add: t fromHexChar_def PushNotificationCommand_Bytes_def Notification_Bytes_def
          JSON_def MarshalJSON_def DeviceTokenItemLength_def PayloadItemMaxLength_def
          NotificationIdentifierItemLength_def ExpirationDateItemLength_def PriorityItemLength_def
          DeviceTokenItemID_def PayloadItemID_def NotificationIdentifierItemID_def
          ExpirationDateItemID_def PriorityItemID_def SendNotificationCommandValue_def
          BigEndian_uint16_def BigEndian_uint32_def BigEndian_int64_def Unix_def)
qed

subsection \<open>The feedback client\<close>

lemma EncodeToString_ff: "EncodeToString (replicate n (0xff::byte)) = replicate (2 * n) (CHR ''f'')"
  by (induction n) (simp_all add: EncodeToString_def hextable_def)

text \<open>
  Claim C5: in the read loop a record that is not exactly 38 bytes long is
  reported as an unrecognized entry and aborts the scan with the entries read
  so far and the error. After one whole record, a read that delivers only 4
  bytes adds a second entry, made of these 4 bytes and of the 34 bytes that the
  first record left in the buffer, and the call returns both entries and no
  error.
\<close>

theorem CheckFeedbackService_short_record:
  "CheckFeedbackService
     \<lparr>dial_error = None, handshake_error = None,
      reads = [([0, 0, 0, 1, 0, 32] @ replicate 32 0xff, None),
               ([0, 0, 0, 2], None),
               ([], Some EOF)]\<rparr> =
   (Some \<lparr>Devices =
            [\<lparr>Timestamp = 1, FeedbackDeviceEntry.DeviceToken = replicate 64 CHR ''f''\<rparr>,
             \<lparr>Timestamp = 2, FeedbackDeviceEntry.DeviceToken = replicate 64 CHR ''f''\<rparr>]\<rparr>,
    None)"
proof -
  have e: "EncodeToString (replicate 32 (0xff::byte)) = replicate 64 (CHR ''f'')"
    using EncodeToString_ff [of 32] by simp
  show ?thesis
    by (simp add: CheckFeedbackService_def conn_Read_def addEntryFromBytes_def e
          TimestampItemLength_def DeviceTokenLengthItemLength_def DeviceTokenItemLength_def)
qed

section \<open>Properties of the client and its workers\<close>

subsection \<open>Channels and the steps of a worker\<close>

lemma then_do_Returns [simp]: "then_do (Returns x) f = f x"
  by (simp add: then_do_def)

lemma closed_offer [simp]: "closed (offer ch v) = closed ch"
  by (simp add: offer_def deliver_def)

lemma cap_offer [simp]: "cap (offer ch v) = cap ch"
  by (simp add: offer_def deliver_def)

lemma buf_offer_unbuffered [simp]: "cap ch = 0 \<Longrightarrow> buf (offer ch v) = buf ch"
  by (simp add: offer_def deliver_def can_send_def)

lemma open_errors_offer [simp]: "open_errors (offer ch v) = open_errors ch"
  by (auto simp: open_errors_def)

lemma received_offer_unbuffered:
  "cap ch = 0 \<Longrightarrow> received (offer ch v) = received ch @ take (recvq ch) [v]"
  by (simp add: offer_def deliver_def can_send_def)

lemma recvq_offer_unbuffered:
  "cap ch = 0 \<Longrightarrow> recvq (offer ch v) = recvq ch - 1"
  by (simp add: offer_def deliver_def can_send_def)

lemma received_foldl_offer:
  "cap ch = 0 \<Longrightarrow> received (foldl offer ch vs) = received ch @ take (recvq ch) vs"
proof (induction vs arbitrary: ch)
  case Nil
  then show ?case by simp
next
  case (Cons v vs)
  then show ?case
    by (cases "recvq ch") (simp_all add: received_offer_unbuffered recvq_offer_unbuffered)
qed

lemma report_open:
  assumes "\<not> closed (commandErrorsQueue (client s))" and "\<not> closed (Errors s)"
  shows "report e s =
     Returns (s\<lparr>worker := (worker s)\<lparr>errorSignal := errorSignal (worker s) @ [e]\<rparr>,
                client := (client s)\<lparr>commandErrorsQueue := offer (commandErrorsQueue (client s)) e\<rparr>,
                Errors := offer (Errors s) e\<rparr>)"
  using assms by (simp add: report_def errorSignal_send_def Errors_offer_def select_send_def)

lemma reconnect_idle:
  assumes "idle_signal (pauseSignal (worker s))"
  shows "reconnect s =
     Returns (s\<lparr>worker := (worker s)\<lparr>pauseSignal := (pauseSignal (worker s))\<lparr>buf := [True]\<rparr>,
                                         reconnects := reconnects (worker s) + 1\<rparr>\<rparr>)"
  using assms
  by (simp add: reconnect_def chan_send_def idle_signal_def can_send_def deliver_def)

lemma conn_Read_6:
  "conn_Read (replicate 6 0) data = (min 6 (length data), take 6 data @ replicate (6 - length data) 0)"
  by (simp add: conn_Read_def min_def Let_def)

lemma idle_after_pause:
  "idle_signal p \<Longrightarrow> select_recv (p\<lparr>buf := [True]\<rparr>) = (p, True)"
  by (cases p) (simp add: idle_signal_def select_recv_def)

lemma idle_no_pause:
  "idle_signal p \<Longrightarrow> select_recv p = (p, False)"
  by (simp add: idle_signal_def select_recv_def)

lemma idle_ready:
  "idle_signal r \<Longrightarrow> chan_send r True = Returns (r\<lparr>buf := [True]\<rparr>)"
  by (simp add: idle_signal_def chan_send_def can_send_def deliver_def)

lemma close_open:
  "\<not> closed ch \<Longrightarrow> chan_close ch = Returns (ch\<lparr>closed := True, recvq := 0\<rparr>)"
  by (simp add: chan_close_def)

lemma idle_buf_nil: "idle_signal r \<Longrightarrow> r\<lparr>buf := []\<rparr> = r"
  by (cases r) (simp add: idle_signal_def)

lemmas step_simps = idle_buf_nil
  executionLoopRoutine_command_def executeCommand_def report_open reconnect_idle conn_Read_6
  idle_after_pause idle_no_pause idle_ready close_open Let_def

lemma step_summary:
  fixes marshal :: "'v marshal" and c :: conn and cmd :: "'v PushNotificationCommand"
    and encoded :: "error + byte list"
  defines "peerClosedW \<equiv> ErrorNew ''apns/worker: Error writing data. Connection appears to be closed by peer''"
  defines "peerClosedR \<equiv> ErrorNew ''apns/worker: Connection was closed by peer after reading data''"
  defines "errs \<equiv>
    (case encoded of
       Inl e \<Rightarrow> [NewCommandError (Some e) (Some cmd)]
     | Inr b \<Rightarrow>
         (case write_error c of
            Some e \<Rightarrow> [NewCommandError (Some (if e = EOF then peerClosedW else e)) (Some cmd)]
          | None \<Rightarrow>
              (if read_bytes c = [] then []
               else [NewCommandErrorFromAPNSResponse
                       (take 6 (read_bytes c) @ replicate (6 - length (read_bytes c)) 0) cmd]) @
              (case read_error c of
                 None \<Rightarrow> []
               | Some e \<Rightarrow>
                   if e = Timeout then []
                   else [NewCommandError (Some (if e = EOF then peerClosedR else e)) (Some cmd)])))"
  defines "rc \<equiv>
    (case encoded of
       Inl e \<Rightarrow> False
     | Inr b \<Rightarrow>
         (case write_error c of
            Some e \<Rightarrow> e = EOF
          | None \<Rightarrow> read_bytes c \<noteq> [] \<or> read_error c = Some EOF))"
  assumes h: "holds_command s"
    and enc: "PushNotificationCommand_Bytes marshal cmd = Returns encoded"
  shows "\<exists>s'. executionLoopRoutine_command marshal c cmd s = Returns s' \<and>
           errorSignal (worker s') = errorSignal (worker s) @ errs \<and>
           commandErrorsQueue (client s') = foldl offer (commandErrorsQueue (client s)) errs \<and>
           commandsQueue (client s') = commandsQueue (client s) \<and>
           Errors s' = (foldl offer (Errors s) errs)\<lparr>closed := True, recvq := 0\<rparr> \<and>
           reconnects (worker s') = reconnects (worker s) + (if rc then 1 else 0) \<and>
           readySignal (worker s') = (readySignal (worker s))\<lparr>buf := (if rc then [] else [True])\<rparr> \<and>
           pauseSignal (worker s') = pauseSignal (worker s) \<and>
           workQueue (worker s') = workQueue (worker s) \<and>
           workerQueue (client s') = workerQueue (client s) \<and>
           writes (worker s') = writes (worker s) @
             (case encoded of Inl e \<Rightarrow> [] | Inr b \<Rightarrow> [b])"
proof -
  from h have r: "idle_signal (readySignal (worker s))" and p: "idle_signal (pauseSignal (worker s))"
    and q: "\<not> closed (commandErrorsQueue (client s))" and e: "\<not> closed (Errors s)"
    by (simp_all add: holds_command_def open_errors_def)
  have rb: "buf (readySignal (worker s)) = []" using r by (simp add: idle_signal_def)
  show ?thesis
  proof (cases encoded)
    case (Inl err)
    then show ?thesis
      using r p q e enc by (simp add: step_simps errs_def rc_def peerClosedW_def peerClosedR_def)
  next
    case (Inr b)
    show ?thesis
    proof (cases "write_error c")
      case (Some we)
      with Inr show ?thesis
        using r p q e enc by (cases "we = EOF") (simp_all add: step_simps errs_def rc_def peerClosedW_def peerClosedR_def)
    next
      case None
      note w = this
      show ?thesis
      proof (cases "read_bytes c = []")
        case True
        show ?thesis
        proof (cases "read_error c")
          case None
          with Inr w True show ?thesis
            using r p q e enc by (simp add: step_simps errs_def rc_def peerClosedW_def peerClosedR_def)
        next
          case (Some re)
          consider "re = Timeout" | "re = EOF" | "re \<noteq> Timeout" "re \<noteq> EOF" by blast
          then show ?thesis
          proof cases
            case 1
            with Inr w True Some show ?thesis
              using r p q e enc by (simp add: step_simps errs_def rc_def peerClosedW_def peerClosedR_def)
          next
            case 2
            with Inr w True Some show ?thesis
              using r p q e enc by (simp add: step_simps errs_def rc_def peerClosedW_def peerClosedR_def)
          next
            case 3
            with Inr w True Some show ?thesis
              using r p q e enc by (simp add: step_simps errs_def rc_def peerClosedW_def peerClosedR_def)
          qed
        qed
      next
        case False
        then have pos: "0 < length (read_bytes c)" by simp
        show ?thesis
        proof (cases "read_error c")
          case None
          with Inr w False pos show ?thesis
            using r p q e enc by (simp add: step_simps errs_def rc_def peerClosedW_def peerClosedR_def)
        next
          case (Some re)
          consider "re = Timeout" | "re = EOF" | "re \<noteq> Timeout" "re \<noteq> EOF" by blast
          then show ?thesis
          proof cases
            case 1
            with Inr w False pos Some show ?thesis
              using r p q e enc by (simp add: step_simps errs_def rc_def peerClosedW_def peerClosedR_def)
          next
            case 2
            with Inr w False pos Some show ?thesis
              using r p q e enc by (simp add: step_simps errs_def rc_def peerClosedW_def peerClosedR_def)
          next
            case 3
            with Inr w False pos Some show ?thesis
              using r p q e enc by (simp add: step_simps errs_def rc_def peerClosedW_def peerClosedR_def)
          qed
        qed
      qed
    qed
  qed
qed

lemma Bytes_Some:
  "Notification cmd = Some n \<Longrightarrow>
   PushNotificationCommand_Bytes marshal cmd =
     Returns (case Notification_Bytes marshal n of
                Inl err \<Rightarrow> Inl err
              | Inr b \<Rightarrow> Inr ([2] @ BigEndian_uint32 (of_nat (length b)) @ b))"
  by (simp add: PushNotificationCommand_Bytes_def SendNotificationCommandValue_def
        split: sum.splits)

lemma step_reported:
  fixes marshal :: "'v marshal" and c :: conn and cmd :: "'v PushNotificationCommand"
    and n :: "'v Notification"
  defines "errs \<equiv>
    (case Notification_Bytes marshal n of
       Inl e \<Rightarrow> [NewCommandError (Some e) (Some cmd)]
     | Inr b \<Rightarrow>
         (case write_error c of
            Some e \<Rightarrow>
              [NewCommandError (Some (if e = EOF then ErrorNew
                 ''apns/worker: Error writing data. Connection appears to be closed by peer''
                 else e)) (Some cmd)]
          | None \<Rightarrow>
              (if read_bytes c = [] then []
               else [NewCommandErrorFromAPNSResponse
                       (take 6 (read_bytes c) @ replicate (6 - length (read_bytes c)) 0) cmd]) @
              (case read_error c of
                 None \<Rightarrow> []
               | Some e \<Rightarrow>
                   if e = Timeout then []
                   else [NewCommandError (Some (if e = EOF then ErrorNew
                      ''apns/worker: Connection was closed by peer after reading data''
                      else e)) (Some cmd)])))"
  assumes h: "holds_command s" and nn: "Notification cmd = Some n"
  shows "\<exists>s'. executionLoopRoutine_command marshal c cmd s = Returns s' \<and>
           errorSignal (worker s') = errorSignal (worker s) @ errs \<and>
           commandErrorsQueue (client s') = foldl offer (commandErrorsQueue (client s)) errs \<and>
           Errors s' = (foldl offer (Errors s) errs)\<lparr>closed := True, recvq := 0\<rparr>"
proof (cases "Notification_Bytes marshal n")
  case (Inl e)
  with Bytes_Some [OF nn, of marshal]
  have enc: "PushNotificationCommand_Bytes marshal cmd = Returns (Inl e)" by simp
  from step_summary [OF h enc, where c = c] show ?thesis
    by (auto simp: errs_def Inl)
next
  case (Inr b)
  with Bytes_Some [OF nn, of marshal]
  have enc: "PushNotificationCommand_Bytes marshal cmd =
      Returns (Inr ([2] @ BigEndian_uint32 (of_nat (length b)) @ b))" by simp
  from step_summary [OF h enc, where c = c] show ?thesis
    by (auto simp: errs_def Inr)
qed

lemma holds_command_fresh:
  "holds_command
     \<lparr>worker = \<lparr>workQueue = make_chan 0,
                 readySignal = make_chan 1, pauseSignal = make_chan 1, errorSignal = [],
                 reconnects = 0, writes = []\<rparr>,
      client = \<lparr>commandsQueue = make_chan n,
                workerQueue = make_chan 1, commandErrorsQueue = make_chan n\<rparr>,
      Errors = \<lparr>buf = [], cap = 0, recvq = k, received = [], closed = False\<rparr>\<rparr>"
  by (simp add: holds_command_def idle_signal_def open_errors_def make_chan_def)

lemma Notification_Bytes_sample:
  "Notification_Bytes marshal
     \<lparr>Notification.DeviceToken = replicate 64 CHR ''0'', Payload = None,
      NotificationIdentifier = ''aabbccdd'', ExpirationDate = None, Priority = 10\<rparr> =
   Inr ([1, 0, 32] @ replicate 32 0 @ [2, 0, 4, 0x6e, 0x75, 0x6c, 0x6c] @
        [3, 0, 4, 0xaa, 0xbb, 0xcc, 0xdd] @ [5, 0, 1, 10])"
proof -
  have t: "DecodeString (replicate 64 CHR ''0'') = Inr (replicate 32 0)"
    using DecodeString_zeros [of 32] by simp
  show ?thesis
    by (simp add: t fromHexChar_def Notification_Bytes_def
          JSON_def DeviceTokenItemLength_def PayloadItemMaxLength_def
          NotificationIdentifierItemLength_def PriorityItemLength_def
          DeviceTokenItemID_def PayloadItemID_def NotificationIdentifierItemID_def
          PriorityItemID_def BigEndian_uint16_def)
qed

lemma Bytes_sample:
  "PushNotificationCommand_Bytes marshal
     \<lparr>Notification = Some
       \<lparr>Notification.DeviceToken = replicate 64 CHR ''0'', Payload = None,
        NotificationIdentifier = ''aabbccdd'', ExpirationDate = None, Priority = 10\<rparr>\<rparr> =
   Returns (Inr ([2, 0, 0, 0, 53] @ [1, 0, 32] @ replicate 32 0 @ [2, 0, 4, 0x6e, 0x75, 0x6c, 0x6c] @
        [3, 0, 4, 0xaa, 0xbb, 0xcc, 0xdd] @ [5, 0, 1, 10]))"
proof -
  have t: "DecodeString (replicate 64 CHR ''0'') = Inr (replicate 32 0)"
    using DecodeString_zeros [of 32] by simp
  show ?thesis
    by (simp add: t fromHexChar_def PushNotificationCommand_Bytes_def Notification_Bytes_def
          JSON_def DeviceTokenItemLength_def PayloadItemMaxLength_def
          NotificationIdentifierItemLength_def PriorityItemLength_def
          DeviceTokenItemID_def PayloadItemID_def NotificationIdentifierItemID_def
          PriorityItemID_def SendNotificationCommandValue_def
          BigEndian_uint16_def BigEndian_uint32_def)
qed

lemmas run_simps =
  executionLoopRoutine_command_def executeCommand_def report_def errorSignal_send_def
  Errors_offer_def reconnect_def select_send_def select_recv_def chan_send_def chan_close_def
  offer_def deliver_def can_send_def conn_Read_def make_chan_def NewCommandError_def
  then_do_def Let_def

subsection \<open>Errors of a command\<close>

text \<open>
  Claim C3, as stated: an error of the execution of a command is always
  delivered on the error channel of the command. The worker offers it by a
  send that does not wait: with no receiver parked on the channel, the error
  of a notification whose device token is not hexadecimal goes to the error
  signal of the worker and to the queue of the client, and the channel of the
  command is closed without having delivered anything.
\<close>

theorem executionLoopRoutine_command_drops_error_counterexample:
  "executionLoopRoutine_command ((\<lambda>m. Inr []) :: unit marshal)
     \<lparr>write_error = None, read_bytes = [], read_error = None\<rparr>
     \<lparr>Notification = Some
       \<lparr>Notification.DeviceToken = ''not-hex'', Payload = None,
        NotificationIdentifier = ''aabbccdd'', ExpirationDate = None, Priority = 10\<rparr>\<rparr>
     \<lparr>worker = \<lparr>workQueue = make_chan 0,
                 readySignal = make_chan 1, pauseSignal = make_chan 1, errorSignal = [],
                 reconnects = 0, writes = []\<rparr>,
      client = \<lparr>commandsQueue = make_chan 1,
                workerQueue = make_chan 1, commandErrorsQueue = make_chan 1\<rparr>,
      Errors = \<lparr>buf = [], cap = 0, recvq = 0, received = [], closed = False\<rparr>\<rparr> =
   Returns
     \<lparr>worker = \<lparr>workQueue = make_chan 0,
                 readySignal = \<lparr>buf = [True], cap = 1, recvq = 0, received = [], closed = False\<rparr>,
                 pauseSignal = make_chan 1,
                 errorSignal =
                   [\<lparr>commandError = Some (InvalidByteError CHR ''n''),
                     command = Some \<lparr>Notification = Some
                       \<lparr>Notification.DeviceToken = ''not-hex'', Payload = None,
                        NotificationIdentifier = ''aabbccdd'', ExpirationDate = None,
                        Priority = 10\<rparr>\<rparr>\<rparr>],
                 reconnects = 0, writes = []\<rparr>,
      client = \<lparr>commandsQueue = make_chan 1,
                 workerQueue = make_chan 1,
                 commandErrorsQueue =
                   \<lparr>buf = [\<lparr>commandError = Some (InvalidByteError CHR ''n''),
                            command = Some \<lparr>Notification = Some
                              \<lparr>Notification.DeviceToken = ''not-hex'', Payload = None,
                               NotificationIdentifier = ''aabbccdd'', ExpirationDate = None,
                               Priority = 10\<rparr>\<rparr>\<rparr>],
                    cap = 1, recvq = 0, received = [], closed = False\<rparr>\<rparr>,
      Errors = \<lparr>buf = [], cap = 0, recvq = 0, received = [], closed = True\<rparr>\<rparr>"
  by (simp add: run_simps PushNotificationCommand_Bytes_def Notification_Bytes_def fromHexChar_def)

text \<open>
  Claim C3, amended. A worker that holds a command with a notification
  finishes the command and reports the following errors, in this order and no
  others: the error of the encoding; or else the error of the write (with
  "Error writing data. Connection appears to be closed by peer" in the place of
  \<^verbatim>\<open>io.EOF\<close>); or else the decoded error response if the read has delivered
  bytes, followed by the error of the read unless there is none or it is a
  timeout (with "Connection was closed by peer after reading data" in the
  place of \<^verbatim>\<open>io.EOF\<close>). Each of these at most two errors is sent on the error
  signal of the worker, is offered to the queue of the client without waiting,
  and is offered to the error channel of the command without waiting: the
  errors are delivered, in order, to the receivers parked on that channel and
  dropped once there is none left. Then the channel is closed.
\<close>

theorem executionLoopRoutine_command_reports_errors:
  fixes marshal :: "'v marshal" and c :: conn and cmd :: "'v PushNotificationCommand"
    and n :: "'v Notification"
  defines "errs \<equiv>
    (case Notification_Bytes marshal n of
       Inl e \<Rightarrow> [NewCommandError (Some e) (Some cmd)]
     | Inr b \<Rightarrow>
         (case write_error c of
            Some e \<Rightarrow>
              [NewCommandError (Some (if e = EOF then ErrorNew
                 ''apns/worker: Error writing data. Connection appears to be closed by peer''
                 else e)) (Some cmd)]
          | None \<Rightarrow>
              (if read_bytes c = [] then []
               else [NewCommandErrorFromAPNSResponse
                       (take 6 (read_bytes c) @ replicate (6 - length (read_bytes c)) 0) cmd]) @
              (case read_error c of
                 None \<Rightarrow> []
               | Some e \<Rightarrow>
                   if e = Timeout then []
                   else [NewCommandError (Some (if e = EOF then ErrorNew
                      ''apns/worker: Connection was closed by peer after reading data''
                      else e)) (Some cmd)])))"
  assumes h: "holds_command s" and nn: "Notification cmd = Some n"
  shows "\<exists>s'. executionLoopRoutine_command marshal c cmd s = Returns s' \<and>
           errorSignal (worker s') = errorSignal (worker s) @ errs \<and>
           commandErrorsQueue (client s') = foldl offer (commandErrorsQueue (client s)) errs \<and>
           Errors s' = (foldl offer (Errors s) errs)\<lparr>closed := True, recvq := 0\<rparr> \<and>
           received (Errors s') = received (Errors s) @ take (recvq (Errors s)) errs \<and>
           length errs \<le> 2"
proof -
  from step_reported [OF h nn, of marshal c]
  obtain s' where run: "executionLoopRoutine_command marshal c cmd s = Returns s'"
    and sig: "errorSignal (worker s') = errorSignal (worker s) @ errs"
    and que: "commandErrorsQueue (client s') = foldl offer (commandErrorsQueue (client s)) errs"
    and err: "Errors s' = (foldl offer (Errors s) errs)\<lparr>closed := True, recvq := 0\<rparr>"
    unfolding errs_def by blast
  from h have "cap (Errors s) = 0" by (simp add: holds_command_def open_errors_def)
  with err have rec: "received (Errors s') = received (Errors s) @ take (recvq (Errors s)) errs"
    by (simp add: received_foldl_offer)
  have len: "length errs \<le> 2"
    by (simp add: errs_def split: sum.splits option.splits)
  from run sig que err rec len show ?thesis by blast
qed

theorem executionLoopRoutine_command_reports_errors_witness:
  "holds_command
     (\<lparr>worker = \<lparr>workQueue = make_chan 0, readySignal = make_chan 1,
                 pauseSignal = make_chan 1, errorSignal = [], reconnects = 0, writes = []\<rparr>,
       client = \<lparr>commandsQueue = make_chan 1, workerQueue = make_chan 1,
                 commandErrorsQueue = make_chan 1\<rparr>,
       Errors = \<lparr>buf = [], cap = 0, recvq = 1, received = [], closed = False\<rparr>\<rparr>
      :: unit PushNotificationCommand world) \<and>
   (\<exists>s'. executionLoopRoutine_command ((\<lambda>m. Inr []) :: unit marshal)
           \<lparr>write_error = None, read_bytes = [8, 8, 0xaa, 0xbb, 0xcc, 0xdd], read_error = None\<rparr>
           \<lparr>Notification = Some
             \<lparr>Notification.DeviceToken = replicate 64 CHR ''0'', Payload = None,
              NotificationIdentifier = ''aabbccdd'', ExpirationDate = None, Priority = 10\<rparr>\<rparr>
           \<lparr>worker = \<lparr>workQueue = make_chan 0, readySignal = make_chan 1,
                       pauseSignal = make_chan 1, errorSignal = [], reconnects = 0, writes = []\<rparr>,
            client = \<lparr>commandsQueue = make_chan 1, workerQueue = make_chan 1,
                       commandErrorsQueue = make_chan 1\<rparr>,
            Errors = \<lparr>buf = [], cap = 0, recvq = 1, received = [], closed = False\<rparr>\<rparr> = Returns s' \<and>
         errorSignal (worker s') =
           [\<lparr>commandError = Some (ErrorNew ''apns: Invalid token for notification #aabbccdd''),
             command = Some \<lparr>Notification = Some
               \<lparr>Notification.DeviceToken = replicate 64 CHR ''0'', Payload = None,
                NotificationIdentifier = ''aabbccdd'', ExpirationDate = None,
                Priority = 10\<rparr>\<rparr>\<rparr>] \<and>
         received (Errors s') =
           [\<lparr>commandError = Some (ErrorNew ''apns: Invalid token for notification #aabbccdd''),
             command = Some \<lparr>Notification = Some
               \<lparr>Notification.DeviceToken = replicate 64 CHR ''0'', Payload = None,
                NotificationIdentifier = ''aabbccdd'', ExpirationDate = None,
                Priority = 10\<rparr>\<rparr>\<rparr>] \<and>
         closed (Errors s'))"
proof -
  let ?s = "\<lparr>worker = \<lparr>workQueue = make_chan 0, readySignal = make_chan 1,
                 pauseSignal = make_chan 1, errorSignal = [], reconnects = 0, writes = []\<rparr>,
      client = \<lparr>commandsQueue = make_chan 1, workerQueue = make_chan 1,
                 commandErrorsQueue = make_chan 1\<rparr>,
      Errors = \<lparr>buf = [], cap = 0, recvq = 1, received = [], closed = False\<rparr>\<rparr>
      :: unit PushNotificationCommand world"
  let ?c = "\<lparr>write_error = None, read_bytes = [8, 8, 0xaa, 0xbb, 0xcc, 0xdd], read_error = None\<rparr>"
  let ?n = "\<lparr>Notification.DeviceToken = replicate 64 CHR ''0'', Payload = None,
              NotificationIdentifier = ''aabbccdd'', ExpirationDate = None, Priority = 10\<rparr>
      :: unit Notification"
  let ?cmd = "\<lparr>Notification = Some ?n\<rparr>"
  let ?e = "\<lparr>commandError = Some (ErrorNew ''apns: Invalid token for notification #aabbccdd''),
             command = Some ?cmd\<rparr>"
  have h: "holds_command ?s" by (rule holds_command_fresh)
  have nn: "Notification ?cmd = Some ?n" by simp
  have enc: "Notification_Bytes ((\<lambda>m. Inr []) :: unit marshal) ?n =
      Inr ([1, 0, 32] @ replicate 32 0 @ [2, 0, 4, 0x6e, 0x75, 0x6c, 0x6c] @
           [3, 0, 4, 0xaa, 0xbb, 0xcc, 0xdd] @ [5, 0, 1, 10])"
    by (rule Notification_Bytes_sample)
  have rsp: "NewCommandErrorFromAPNSResponse [8, 8, 0xaa, 0xbb, 0xcc, 0xdd] ?cmd = ?e"
    by (simp add: NewCommandErrorFromAPNSResponse_def NewCommandError_def statusDescription_def
          PushNotificationErrorStatuses_def EncodeToString_def hextable_def)
  from executionLoopRoutine_command_reports_errors [OF h nn, of "\<lambda>m. Inr []" ?c]
  obtain s' where run: "executionLoopRoutine_command (\<lambda>m. Inr []) ?c ?cmd ?s = Returns s'"
    and sig: "errorSignal (worker s') = errorSignal (worker ?s) @ [?e]"
    and err: "Errors s' = (foldl offer (Errors ?s) [?e])\<lparr>closed := True, recvq := 0\<rparr>"
    and rec: "received (Errors s') = received (Errors ?s) @ take (recvq (Errors ?s)) [?e]"
    unfolding enc by (auto simp: rsp)
  from sig have a: "errorSignal (worker s') = [?e]" by simp
  from rec have b: "received (Errors s') = [?e]" by simp
  from err have d: "closed (Errors s')" by simp
  from h run a b d show ?thesis by blast
qed

subsection \<open>A read that delivers no byte\<close>

text \<open>
  Claim C4, as stated: when the read ends with \<^verbatim>\<open>io.EOF\<close> and no byte, a
  reconnection is scheduled and no error is delivered to the error channel of
  the command. With a receiver parked on that channel, the error "Connection
  was closed by peer after reading data" is delivered to it.
\<close>

theorem executionLoopRoutine_command_eof_counterexample:
  "executionLoopRoutine_command ((\<lambda>m. Inr []) :: unit marshal)
     \<lparr>write_error = None, read_bytes = [], read_error = Some EOF\<rparr>
     \<lparr>Notification = Some
       \<lparr>Notification.DeviceToken = replicate 64 CHR ''0'', Payload = None,
        NotificationIdentifier = ''aabbccdd'', ExpirationDate = None, Priority = 10\<rparr>\<rparr>
     \<lparr>worker = \<lparr>workQueue = make_chan 0,
                 readySignal = make_chan 1, pauseSignal = make_chan 1, errorSignal = [],
                 reconnects = 0, writes = []\<rparr>,
      client = \<lparr>commandsQueue = make_chan 1,
                workerQueue = make_chan 1, commandErrorsQueue = make_chan 1\<rparr>,
      Errors = \<lparr>buf = [], cap = 0, recvq = 1, received = [], closed = False\<rparr>\<rparr> =
   Returns
     \<lparr>worker = \<lparr>workQueue = make_chan 0, readySignal = make_chan 1,
                 pauseSignal = make_chan 1,
                 errorSignal =
                   [\<lparr>commandError = Some (ErrorNew
                       ''apns/worker: Connection was closed by peer after reading data''),
                     command = Some \<lparr>Notification = Some
                       \<lparr>Notification.DeviceToken = replicate 64 CHR ''0'', Payload = None,
                        NotificationIdentifier = ''aabbccdd'', ExpirationDate = None,
                        Priority = 10\<rparr>\<rparr>\<rparr>],
                 reconnects = 1,
                 writes = [[2, 0, 0, 0, 53] @ [1, 0, 32] @ replicate 32 0 @
                           [2, 0, 4, 0x6e, 0x75, 0x6c, 0x6c] @
                           [3, 0, 4, 0xaa, 0xbb, 0xcc, 0xdd] @ [5, 0, 1, 10]]\<rparr>,
      client = \<lparr>commandsQueue = make_chan 1,
                 workerQueue = make_chan 1,
                 commandErrorsQueue =
                   \<lparr>buf = [\<lparr>commandError = Some (ErrorNew
                              ''apns/worker: Connection was closed by peer after reading data''),
                            command = Some \<lparr>Notification = Some
                              \<lparr>Notification.DeviceToken = replicate 64 CHR ''0'', Payload = None,
                               NotificationIdentifier = ''aabbccdd'', ExpirationDate = None,
                               Priority = 10\<rparr>\<rparr>\<rparr>],
                    cap = 1, recvq = 0, received = [], closed = False\<rparr>\<rparr>,
      Errors = \<lparr>buf = [], cap = 0, recvq = 0,
                 received =
                   [\<lparr>commandError = Some (ErrorNew
                       ''apns/worker: Connection was closed by peer after reading data''),
                     command = Some \<lparr>Notification = Some
                       \<lparr>Notification.DeviceToken = replicate 64 CHR ''0'', Payload = None,
                        NotificationIdentifier = ''aabbccdd'', ExpirationDate = None,
                        Priority = 10\<rparr>\<rparr>\<rparr>],
                 closed = True\<rparr>\<rparr>"
  unfolding executionLoopRoutine_command_def executeCommand_def Bytes_sample
  by (simp add: run_simps)

text \<open>
  Claim C4, amended. After a frame has been written and the read has delivered
  no byte: on a timeout the worker reports no error, schedules no reconnection,
  signals that it is ready again and closes the error channel of the command;
  on \<^verbatim>\<open>io.EOF\<close> it schedules a reconnection, does not signal that it is ready,
  reports the error "apns/worker: Connection was closed by peer after reading
  data" on its error signal and to the queue of the client, offers it to the
  error channel of the command (delivered if a receiver is parked there) and
  closes that channel.
\<close>

theorem executionLoopRoutine_command_quiet_read:
  assumes h: "holds_command s"
    and enc: "PushNotificationCommand_Bytes marshal cmd = Returns (Inr cmdBytes)"
    and wr: "write_error c = None"
    and rd: "read_bytes c = []"
  shows "(read_error c = Some Timeout \<longrightarrow>
           (\<exists>s'. executionLoopRoutine_command marshal c cmd s = Returns s' \<and>
                 errorSignal (worker s') = errorSignal (worker s) \<and>
                 commandErrorsQueue (client s') = commandErrorsQueue (client s) \<and>
                 received (Errors s') = received (Errors s) \<and>
                 reconnects (worker s') = reconnects (worker s) \<and>
                 buf (readySignal (worker s')) = [True] \<and>
                 closed (Errors s'))) \<and>
         (read_error c = Some EOF \<longrightarrow>
           (\<exists>s'. executionLoopRoutine_command marshal c cmd s = Returns s' \<and>
                 errorSignal (worker s') = errorSignal (worker s) @
                   [NewCommandError (Some (ErrorNew
                      ''apns/worker: Connection was closed by peer after reading data'')) (Some cmd)] \<and>
                 commandErrorsQueue (client s') = offer (commandErrorsQueue (client s))
                   (NewCommandError (Some (ErrorNew
                      ''apns/worker: Connection was closed by peer after reading data'')) (Some cmd)) \<and>
                 received (Errors s') = received (Errors s) @ take (recvq (Errors s))
                   [NewCommandError (Some (ErrorNew
                      ''apns/worker: Connection was closed by peer after reading data'')) (Some cmd)] \<and>
                 reconnects (worker s') = reconnects (worker s) + 1 \<and>
                 buf (readySignal (worker s')) = [] \<and>
                 closed (Errors s')))"
proof -
  from h have cap0: "cap (Errors s) = 0" by (simp add: holds_command_def open_errors_def)
  from step_summary [OF h enc, where c = c]
  obtain s' where run: "executionLoopRoutine_command marshal c cmd s = Returns s'"
    and sig: "errorSignal (worker s') = errorSignal (worker s) @
        (case read_error c of
           None \<Rightarrow> []
         | Some e \<Rightarrow>
             if e = Timeout then []
             else [NewCommandError (Some (if e = EOF then ErrorNew
                ''apns/worker: Connection was closed by peer after reading data''
                else e)) (Some cmd)])"
    and que: "commandErrorsQueue (client s') = foldl offer (commandErrorsQueue (client s))
        (case read_error c of
           None \<Rightarrow> []
         | Some e \<Rightarrow>
             if e = Timeout then []
             else [NewCommandError (Some (if e = EOF then ErrorNew
                ''apns/worker: Connection was closed by peer after reading data''
                else e)) (Some cmd)])"
    and err: "Errors s' = (foldl offer (Errors s)
        (case read_error c of
           None \<Rightarrow> []
         | Some e \<Rightarrow>
             if e = Timeout then []
             else [NewCommandError (Some (if e = EOF then ErrorNew
                ''apns/worker: Connection was closed by peer after reading data''
                else e)) (Some cmd)]))\<lparr>closed := True, recvq := 0\<rparr>"
    and rec: "reconnects (worker s') = reconnects (worker s) + (if read_error c = Some EOF then 1 else 0)"
    and rdy: "readySignal (worker s') =
        (readySignal (worker s))\<lparr>buf := (if read_error c = Some EOF then [] else [True])\<rparr>"
    by (auto simp: wr rd)
  have 1: ?thesis if "read_error c = Some Timeout"
    using that run sig que err rec rdy by simp
  have 2: ?thesis if "read_error c = Some EOF"
    using that run sig que err rec rdy cap0 by (simp add: received_offer_unbuffered)
  have 3: ?thesis if "read_error c \<noteq> Some Timeout" "read_error c \<noteq> Some EOF"
    using that by simp
  from 1 2 3 show ?thesis by blast
qed

theorem executionLoopRoutine_command_quiet_read_witness:
  "holds_command
     (\<lparr>worker = \<lparr>workQueue = make_chan 0,
                 readySignal = make_chan 1, pauseSignal = make_chan 1, errorSignal = [],
                 reconnects = 0, writes = []\<rparr>,
       client = \<lparr>commandsQueue = make_chan 1,
                 workerQueue = make_chan 1, commandErrorsQueue = make_chan 1\<rparr>,
       Errors = \<lparr>buf = [], cap = 0, recvq = 1, received = [], closed = False\<rparr>\<rparr>
      :: unit PushNotificationCommand world) \<and>
   (\<exists>s'. executionLoopRoutine_command ((\<lambda>m. Inr []) :: unit marshal)
           \<lparr>write_error = None, read_bytes = [], read_error = Some Timeout\<rparr>
           \<lparr>Notification = Some
             \<lparr>Notification.DeviceToken = replicate 64 CHR ''0'', Payload = None,
              NotificationIdentifier = ''aabbccdd'', ExpirationDate = None, Priority = 10\<rparr>\<rparr>
           \<lparr>worker = \<lparr>workQueue = make_chan 0,
                       readySignal = make_chan 1, pauseSignal = make_chan 1, errorSignal = [],
                       reconnects = 0, writes = []\<rparr>,
            client = \<lparr>commandsQueue = make_chan 1,
                      workerQueue = make_chan 1, commandErrorsQueue = make_chan 1\<rparr>,
            Errors = \<lparr>buf = [], cap = 0, recvq = 1, received = [], closed = False\<rparr>\<rparr> = Returns s' \<and>
         errorSignal (worker s') = [] \<and> received (Errors s') = [] \<and>
         reconnects (worker s') = 0 \<and> buf (readySignal (worker s')) = [True] \<and>
         closed (Errors s')) \<and>
   (\<exists>s'. executionLoopRoutine_command ((\<lambda>m. Inr []) :: unit marshal)
           \<lparr>write_error = None, read_bytes = [], read_error = Some EOF\<rparr>
           \<lparr>Notification = Some
             \<lparr>Notification.DeviceToken = replicate 64 CHR ''0'', Payload = None,
              NotificationIdentifier = ''aabbccdd'', ExpirationDate = None, Priority = 10\<rparr>\<rparr>
           \<lparr>worker = \<lparr>workQueue = make_chan 0,
                       readySignal = make_chan 1, pauseSignal = make_chan 1, errorSignal = [],
                       reconnects = 0, writes = []\<rparr>,
            client = \<lparr>commandsQueue = make_chan 1,
                      workerQueue = make_chan 1, commandErrorsQueue = make_chan 1\<rparr>,
            Errors = \<lparr>buf = [], cap = 0, recvq = 1, received = [], closed = False\<rparr>\<rparr> = Returns s' \<and>
         received (Errors s') =
           [\<lparr>commandError = Some (ErrorNew
               ''apns/worker: Connection was closed by peer after reading data''),
             command = Some \<lparr>Notification = Some
               \<lparr>Notification.DeviceToken = replicate 64 CHR ''0'', Payload = None,
                NotificationIdentifier = ''aabbccdd'', ExpirationDate = None,
                Priority = 10\<rparr>\<rparr>\<rparr>] \<and>
         reconnects (worker s') = 1 \<and> buf (readySignal (worker s')) = [] \<and>
         closed (Errors s'))"
proof -
  let ?s = "\<lparr>worker = \<lparr>workQueue = make_chan 0,
                 readySignal = make_chan 1, pauseSignal = make_chan 1, errorSignal = [],
                 reconnects = 0, writes = []\<rparr>,
      client = \<lparr>commandsQueue = make_chan 1,
                workerQueue = make_chan 1, commandErrorsQueue = make_chan 1\<rparr>,
      Errors = \<lparr>buf = [], cap = 0, recvq = 1, received = [], closed = False\<rparr>\<rparr>
      :: unit PushNotificationCommand world"
  let ?m = "(\<lambda>m. Inr []) :: unit marshal"
  let ?t = "\<lparr>write_error = None, read_bytes = [], read_error = Some Timeout\<rparr>"
  let ?e = "\<lparr>write_error = None, read_bytes = [], read_error = Some EOF\<rparr>"
  let ?cmd = "\<lparr>Notification = Some
             \<lparr>Notification.DeviceToken = replicate 64 CHR ''0'', Payload = None,
              NotificationIdentifier = ''aabbccdd'', ExpirationDate = None, Priority = 10\<rparr>\<rparr>
      :: unit PushNotificationCommand"
  have h: "holds_command ?s" by (rule holds_command_fresh)
  have enc: "PushNotificationCommand_Bytes ?m ?cmd =
      Returns (Inr ([2, 0, 0, 0, 53] @ [1, 0, 32] @ replicate 32 0 @
           [2, 0, 4, 0x6e, 0x75, 0x6c, 0x6c] @
           [3, 0, 4, 0xaa, 0xbb, 0xcc, 0xdd] @ [5, 0, 1, 10]))"
    by (rule Bytes_sample)
  have wt: "write_error ?t = None" and rt: "read_bytes ?t = []" by simp_all
  have we: "write_error ?e = None" and re: "read_bytes ?e = []" by simp_all
  from executionLoopRoutine_command_quiet_read [OF h enc wt rt]
  have 1: "\<exists>s'. executionLoopRoutine_command ?m ?t ?cmd ?s = Returns s' \<and>
         errorSignal (worker s') = [] \<and> received (Errors s') = [] \<and>
         reconnects (worker s') = 0 \<and> buf (readySignal (worker s')) = [True] \<and>
         closed (Errors s')"
    by auto
  from executionLoopRoutine_command_quiet_read [OF h enc we re]
  have 2: "\<exists>s'. executionLoopRoutine_command ?m ?e ?cmd ?s = Returns s' \<and>
         received (Errors s') =
           [\<lparr>commandError = Some (ErrorNew
               ''apns/worker: Connection was closed by peer after reading data''),
             command = Some ?cmd\<rparr>] \<and>
         reconnects (worker s') = 1 \<and> buf (readySignal (worker s')) = [] \<and>
         closed (Errors s')"
    by (auto simp: NewCommandError_def)
  from h 1 2 show ?thesis by blast
qed

subsection \<open>Submission\<close>

text \<open>
  Claim C7, as stated: when the queue of commands is at its capacity,
  \<^verbatim>\<open>ExecuteCommand\<close> closes the error channel of the command and returns the
  error of a full queue. A queue of capacity 0 holds no command and is at its
  capacity; with the dispatcher parked in its receive, the command is handed
  over and \<^verbatim>\<open>ExecuteCommand\<close> returns no error.
\<close>

theorem ExecuteCommand_unbuffered_counterexample:
  "length (buf \<lparr>buf = [], cap = 0, recvq = 1, received = [], closed = False\<rparr>) =
     cap \<lparr>buf = [], cap = 0, recvq = 1, received = [], closed = False\<rparr> \<and>
   ExecuteCommand ()
     \<lparr>worker = \<lparr>workQueue = make_chan 0,
                 readySignal = make_chan 1, pauseSignal = make_chan 1, errorSignal = [],
                 reconnects = 0, writes = []\<rparr>,
      client = \<lparr>commandsQueue = \<lparr>buf = [], cap = 0, recvq = 1, received = [], closed = False\<rparr>,
                workerQueue = make_chan 1, commandErrorsQueue = make_chan 0\<rparr>,
      Errors = make_chan 0\<rparr> =
   Returns
     (\<lparr>worker = \<lparr>workQueue = make_chan 0,
                 readySignal = make_chan 1, pauseSignal = make_chan 1, errorSignal = [],
                 reconnects = 0, writes = []\<rparr>,
       client = \<lparr>commandsQueue = \<lparr>buf = [], cap = 0, recvq = 0, received = [()], closed = False\<rparr>,
                 workerQueue = make_chan 1, commandErrorsQueue = make_chan 0\<rparr>,
       Errors = make_chan 0\<rparr>, None)"
  by (simp add: ExecuteCommand_def select_send_def offer_def can_send_def deliver_def)

text \<open>
  Claim C7, amended. \<^verbatim>\<open>ExecuteCommand\<close> does not wait. If the queue of
  commands holds fewer commands than its capacity, or a receive is parked on it,
  the command is sent (to the parked receiver if there is one, to the end of the
  buffer otherwise), no error is returned and the error channel of the command
  is left as it was. If the queue is at its capacity and no receive is parked on
  it, the error channel of the command is closed, the error "apns: Queue is
  full, dismissing command" is returned and the queue is left as it was.
\<close>

theorem ExecuteCommand_submits_or_rejects:
  assumes q: "\<not> closed (commandsQueue (client s))" and e: "\<not> closed (Errors s)"
  shows "(length (buf (commandsQueue (client s))) < cap (commandsQueue (client s)) \<or>
          recvq (commandsQueue (client s)) > 0 \<longrightarrow>
            (\<exists>q'. ExecuteCommand cmd s = Returns (s\<lparr>client := (client s)\<lparr>commandsQueue := q'\<rparr>\<rparr>, None) \<and>
                  (if recvq (commandsQueue (client s)) > 0
                   then received q' = received (commandsQueue (client s)) @ [cmd] \<and>
                        buf q' = buf (commandsQueue (client s))
                   else buf q' = buf (commandsQueue (client s)) @ [cmd] \<and>
                        received q' = received (commandsQueue (client s))) \<and>
                  cap q' = cap (commandsQueue (client s)) \<and> \<not> closed q')) \<and>
         (cap (commandsQueue (client s)) \<le> length (buf (commandsQueue (client s))) \<and>
          recvq (commandsQueue (client s)) = 0 \<longrightarrow>
            ExecuteCommand cmd s =
              Returns (s\<lparr>Errors := (Errors s)\<lparr>closed := True, recvq := 0\<rparr>\<rparr>,
                       Some (NewCommandError (Some (ErrorNew ''apns: Queue is full, dismissing command''))
                               (Some cmd))))"
  using q e
  by (auto simp: ExecuteCommand_def select_send_def offer_def can_send_def deliver_def
        chan_close_def)

theorem ExecuteCommand_submits_or_rejects_witness:
  "\<not> closed (commandsQueue (client
      (\<lparr>worker = \<lparr>workQueue = make_chan 0,
                  readySignal = make_chan 1, pauseSignal = make_chan 1, errorSignal = [],
                  reconnects = 0, writes = []\<rparr>,
        client = \<lparr>commandsQueue = \<lparr>buf = [()], cap = 1, recvq = 0, received = [], closed = False\<rparr>,
                  workerQueue = make_chan 1, commandErrorsQueue = make_chan 1\<rparr>,
        Errors = make_chan 0\<rparr> :: unit world))) \<and>
   ExecuteCommand ()
      (\<lparr>worker = \<lparr>workQueue = make_chan 0,
                  readySignal = make_chan 1, pauseSignal = make_chan 1, errorSignal = [],
                  reconnects = 0, writes = []\<rparr>,
        client = \<lparr>commandsQueue = \<lparr>buf = [()], cap = 1, recvq = 0, received = [], closed = False\<rparr>,
                  workerQueue = make_chan 1, commandErrorsQueue = make_chan 1\<rparr>,
        Errors = make_chan 0\<rparr> :: unit world) =
    Returns
      (\<lparr>worker = \<lparr>workQueue = make_chan 0,
                  readySignal = make_chan 1, pauseSignal = make_chan 1, errorSignal = [],
                  reconnects = 0, writes = []\<rparr>,
        client = \<lparr>commandsQueue = \<lparr>buf = [()], cap = 1, recvq = 0, received = [], closed = False\<rparr>,
                  workerQueue = make_chan 1, commandErrorsQueue = make_chan 1\<rparr>,
        Errors = \<lparr>buf = [], cap = 0, recvq = 0, received = [], closed = True\<rparr>\<rparr>,
       Some \<lparr>commandError = Some (ErrorNew ''apns: Queue is full, dismissing command''),
             command = Some ()\<rparr>) \<and>
   (\<exists>q'. ExecuteCommand ()
      (\<lparr>worker = \<lparr>workQueue = make_chan 0,
                  readySignal = make_chan 1, pauseSignal = make_chan 1, errorSignal = [],
                  reconnects = 0, writes = []\<rparr>,
        client = \<lparr>commandsQueue = make_chan 1,
                  workerQueue = make_chan 1, commandErrorsQueue = make_chan 1\<rparr>,
        Errors = make_chan 0\<rparr> :: unit world) =
    Returns
      (\<lparr>worker = \<lparr>workQueue = make_chan 0,
                  readySignal = make_chan 1, pauseSignal = make_chan 1, errorSignal = [],
                  reconnects = 0, writes = []\<rparr>,
        client = \<lparr>commandsQueue = q',
                  workerQueue = make_chan 1, commandErrorsQueue = make_chan 1\<rparr>,
        Errors = make_chan 0\<rparr>, None) \<and> buf q' = [()])"
proof -
  let ?full = "\<lparr>worker = \<lparr>workQueue = make_chan 0,
                  readySignal = make_chan 1, pauseSignal = make_chan 1, errorSignal = [],
                  reconnects = 0, writes = []\<rparr>,
        client = \<lparr>commandsQueue = \<lparr>buf = [()], cap = 1, recvq = 0, received = [], closed = False\<rparr>,
                  workerQueue = make_chan 1, commandErrorsQueue = make_chan 1\<rparr>,
        Errors = make_chan 0\<rparr> :: unit world"
  let ?empty = "\<lparr>worker = \<lparr>workQueue = make_chan 0,
                  readySignal = make_chan 1, pauseSignal = make_chan 1, errorSignal = [],
                  reconnects = 0, writes = []\<rparr>,
        client = \<lparr>commandsQueue = make_chan 1,
                  workerQueue = make_chan 1, commandErrorsQueue = make_chan 1\<rparr>,
        Errors = make_chan 0\<rparr> :: unit world"
  have qf: "\<not> closed (commandsQueue (client ?full))" by simp
  have ef: "\<not> closed (Errors ?full)" by (simp add: make_chan_def)
  have qe: "\<not> closed (commandsQueue (client ?empty))" by (simp add: make_chan_def)
  have ee: "\<not> closed (Errors ?empty)" by (simp add: make_chan_def)
  from ExecuteCommand_submits_or_rejects [OF qf ef, of "()"]
  have 1: "ExecuteCommand () ?full =
      Returns (?full\<lparr>Errors := (Errors ?full)\<lparr>closed := True, recvq := 0\<rparr>\<rparr>,
               Some (NewCommandError (Some (ErrorNew ''apns: Queue is full, dismissing command''))
                       (Some ())))"
    by simp
  from ExecuteCommand_submits_or_rejects [OF qe ee, of "()"]
  obtain q' where 2: "ExecuteCommand () ?empty =
      Returns (?empty\<lparr>client := (client ?empty)\<lparr>commandsQueue := q'\<rparr>\<rparr>, None)"
    and 3: "buf q' = buf (commandsQueue (client ?empty)) @ [()]"
    by (auto simp: make_chan_def)
  from 1 have a1: "ExecuteCommand () ?full =
    Returns
      (\<lparr>worker = \<lparr>workQueue = make_chan 0,
                  readySignal = make_chan 1, pauseSignal = make_chan 1, errorSignal = [],
                  reconnects = 0, writes = []\<rparr>,
        client = \<lparr>commandsQueue = \<lparr>buf = [()], cap = 1, recvq = 0, received = [], closed = False\<rparr>,
                  workerQueue = make_chan 1, commandErrorsQueue = make_chan 1\<rparr>,
        Errors = \<lparr>buf = [], cap = 0, recvq = 0, received = [], closed = True\<rparr>\<rparr>,
       Some \<lparr>commandError = Some (ErrorNew ''apns: Queue is full, dismissing command''),
             command = Some ()\<rparr>)"
    by (simp add: make_chan_def NewCommandError_def)
  from 2 have a2: "ExecuteCommand () ?empty =
    Returns
      (\<lparr>worker = \<lparr>workQueue = make_chan 0,
                  readySignal = make_chan 1, pauseSignal = make_chan 1, errorSignal = [],
                  reconnects = 0, writes = []\<rparr>,
        client = \<lparr>commandsQueue = q',
                  workerQueue = make_chan 1, commandErrorsQueue = make_chan 1\<rparr>,
        Errors = make_chan 0\<rparr>, None)"
    by simp
  from 3 have a3: "buf q' = [()]" by (simp add: make_chan_def)
  from qf a1 a2 a3 show ?thesis by blast
qed

subsection \<open>Closing the error channel of a command\<close>





text \<open>
  A worker that has connected, and so has its ready signal, registers: after
  the start of its loop it waits for a command in the state above.
\<close>

lemma executionLoopRoutine_ready_registers:
  assumes "readySignal (worker s) = (make_chan 1)\<lparr>buf := [True]\<rparr>"
    and "idle_signal (pauseSignal (worker s))"
    and "workQueue (worker s) = make_chan 0"
    and "workerQueue (client s) = make_chan k" and "0 < k"
    and "\<not> closed (commandsQueue (client s))"
    and "\<not> closed (commandErrorsQueue (client s))"
    and "open_errors (Errors s)"
  shows "\<exists>s'. executionLoopRoutine_ready s = Returns s' \<and> registered s' \<and>
           commandsQueue (client s') = commandsQueue (client s) \<and> Errors s' = Errors s"
  using assms
  by (simp add: executionLoopRoutine_ready_def chan_recv_def chan_send_def can_send_def
        deliver_def make_chan_def registered_def holds_command_def idle_signal_def)




end
